theory Spec2Isabelle
  imports Main "HOL-Library.AList"
begin

section \<open>JavaScript values\<close>

text \<open>
  The stores are TypeScript, whose types are erased at run time: \<open>loadFromStorage\<close> casts
  whatever \<open>JSON.parse\<close> returns to \<open>PersistedProfiles\<close>, and the profile form hands
  \<open>addProfile\<close> an object cast with \<open>as any\<close>. Profiles, snapshots, account rows and
  accounts are therefore modelled as untyped values. An object is an association list
  in insertion order, read by first match.
\<close>

datatype jsval =
    JUndefined
  | JNull
  | JBool bool
  | JNum int
  | JStr string
  | JArr "jsval list"
  | JObj "(string \<times> jsval) list"

datatype error = TypeError | SyntaxError | QuotaExceededError | SecurityError | AuthError string | Error string

text \<open>
  Truthiness (\<open>!v\<close> is its negation). Numbers are integers: the stores never compute
  with a number, they only test one that came out of storage for truthiness.
\<close>

fun truthy :: "jsval \<Rightarrow> bool" where
  "truthy JUndefined = False"
| "truthy JNull = False"
| "truthy (JBool b) = b"
| "truthy (JNum n) = (n \<noteq> 0)"
| "truthy (JStr s) = (s \<noteq> [])"
| "truthy (JArr xs) = True"
| "truthy (JObj kvs) = True"

fun isNullish :: "jsval \<Rightarrow> bool" where
  "isNullish JUndefined = True"
| "isNullish JNull = True"
| "isNullish v = False"

text \<open>\<open>a ?? b\<close>\<close>

definition nullish_or :: "jsval \<Rightarrow> jsval \<Rightarrow> jsval" where
  "nullish_or a b = (if isNullish a then b else a)"

text \<open>
  \<open>v.k\<close> for the property names the stores read (\<open>profiles\<close>, \<open>currentProfileId\<close>,
  \<open>id\<close> and the columns of an account row): reading from \<open>null\<close> or \<open>undefined\<close>
  throws, a missing property reads as \<open>undefined\<close>, and primitives and arrays own none
  of these names.
\<close>

fun getProp :: "jsval \<Rightarrow> string \<Rightarrow> error + jsval" where
  "getProp JUndefined k = Inl TypeError"
| "getProp JNull k = Inl TypeError"
| "getProp (JObj kvs) k = Inr (case map_of kvs k of None \<Rightarrow> JUndefined | Some v \<Rightarrow> v)"
| "getProp v k = Inr JUndefined"

text \<open>\<open>v?.k\<close>\<close>

definition getPropOpt :: "jsval \<Rightarrow> string \<Rightarrow> jsval" where
  "getPropOpt v k = (case getProp v k of Inl e \<Rightarrow> JUndefined | Inr x \<Rightarrow> x)"

fun isArray :: "jsval \<Rightarrow> bool" where
  "isArray (JArr xs) = True"
| "isArray v = False"

fun arrayItems :: "jsval \<Rightarrow> jsval list" where
  "arrayItems (JArr xs) = xs"
| "arrayItems v = []"

text \<open>
  Object spread \<open>{...a, ...b}\<close> on own properties: a key of \<open>b\<close> overwrites the value
  in place when \<open>a\<close> has it and is appended otherwise. An association list that repeats
  a key stands for the object of its first entries (\<open>clearjunk\<close> drops the others).
  Property names that look like array indices, which JavaScript enumerates first, do
  not occur among the fields of a profile.
\<close>

fun assign :: "(string \<times> jsval) list \<Rightarrow> (string \<times> jsval) list \<Rightarrow> (string \<times> jsval) list" where
  "assign a [] = a"
| "assign a ((k, v) # b) = assign (AList.update k v a) b"

definition spread :: "(string \<times> jsval) list \<Rightarrow> (string \<times> jsval) list \<Rightarrow> (string \<times> jsval) list" where
  "spread a b = assign a (AList.clearjunk b)"

text \<open>The own properties that a spread copies out of a value that is an object.\<close>

fun objProps :: "jsval \<Rightarrow> (string \<times> jsval) list" where
  "objProps (JObj kvs) = kvs"
| "objProps v = []"

definition ofStringOrNull :: "string option \<Rightarrow> jsval" where
  "ofStringOrNull x = (case x of None \<Rightarrow> JNull | Some s \<Rightarrow> JStr s)"

section \<open>The platform: JSON, clock, random source, local storage\<close>

text \<open>
  \<open>JSON.parse\<close> and \<open>JSON.stringify\<close> belong to the JavaScript runtime, not to the
  repository; they are parameters. \<open>None\<close> stands for a thrown exception
  (\<open>SyntaxError\<close>, respectively a serialization \<open>TypeError\<close>); the store only ever
  serializes an object literal, for which \<open>JSON.stringify\<close> returns text or throws.
  The clock and the
  random source are schedules: \<open>clock n\<close> is the \<open>n\<close>-th reading of the system time
  in milliseconds since the epoch, \<open>random36 n\<close> the \<open>n\<close>-th value of
  \<open>Math.random().toString(36).slice(2, 8)\<close> (at most six base-36 digits; the floating
  point conversion itself is not modelled).
\<close>

record platform =
  JSON_parse :: "string \<Rightarrow> jsval option"
  JSON_stringify :: "jsval \<Rightarrow> string option"
  clock :: "nat \<Rightarrow> nat"
  random36 :: "nat \<Rightarrow> string"

text \<open>
  The mutable part: the content of \<open>localStorage\<close>, whether the page may access it
  at all, its quota (in characters of keys and values), the number of \<open>getItem\<close> calls
  made so far, and how many clock readings and random values were consumed.
\<close>

record world =
  storage_available :: bool
  storage_items :: "(string \<times> string) list"
  storage_capacity :: nat
  storage_reads :: nat
  clock_reads :: nat
  random_reads :: nat

definition Date_now :: "platform \<Rightarrow> world \<Rightarrow> nat \<times> world" where
  "Date_now env w = (clock env (clock_reads w), w\<lparr>clock_reads := Suc (clock_reads w)\<rparr>)"

definition Math_random36 :: "platform \<Rightarrow> world \<Rightarrow> string \<times> world" where
  "Math_random36 env w = (random36 env (random_reads w), w\<lparr>random_reads := Suc (random_reads w)\<rparr>)"

definition storage_size :: "(string \<times> string) list \<Rightarrow> nat" where
  "storage_size kvs = sum_list (map (\<lambda>(k, v). length k + length v) kvs)"

definition getItem :: "string \<Rightarrow> world \<Rightarrow> (error + string option) \<times> world" where
  "getItem k w =
     (if storage_available w
      then (Inr (map_of (storage_items w) k), w\<lparr>storage_reads := Suc (storage_reads w)\<rparr>)
      else (Inl SecurityError, w))"

definition setItem :: "string \<Rightarrow> string \<Rightarrow> world \<Rightarrow> (error + unit) \<times> world" where
  "setItem k v w =
     (if \<not> storage_available w then (Inl SecurityError, w)
      else let items' = AList.update k v (storage_items w)
           in if storage_size items' \<le> storage_capacity w
              then (Inr (), w\<lparr>storage_items := items'\<rparr>)
              else (Inl QuotaExceededError, w))"

subsection \<open>Number and date formatting\<close>

definition digit36 :: "nat \<Rightarrow> char" where
  "digit36 d = ''0123456789abcdefghijklmnopqrstuvwxyz'' ! (d mod 36)"

text \<open>\<open>n.toString(36)\<close> for a non-negative integer.\<close>

function toString36 :: "nat \<Rightarrow> string" where
  "toString36 n = (if n < 36 then [digit36 n] else toString36 (n div 36) @ [digit36 (n mod 36)])"
  by pat_completeness auto
termination
  by (relation "measure id") auto

declare toString36.simps [simp del]

text \<open>Fixed-width decimal fields, as \<open>toISOString\<close> pads them.\<close>

definition dig :: "nat \<Rightarrow> char" where
  "dig n = ''0123456789'' ! (n mod 10)"

definition pad2 :: "nat \<Rightarrow> string" where
  "pad2 n = [dig (n div 10), dig n]"

definition pad3 :: "nat \<Rightarrow> string" where
  "pad3 n = dig (n div 100) # pad2 n"

definition pad4 :: "nat \<Rightarrow> string" where
  "pad4 n = dig (n div 1000) # pad3 n"

definition pad6 :: "nat \<Rightarrow> string" where
  "pad6 n = dig (n div 100000) # dig (n div 10000) # pad4 n"

text \<open>
  \<open>new Date(t).toISOString()\<close> for a time value \<open>t\<close> at or after the epoch: the
  proleptic Gregorian date of day \<open>t div 86400000\<close>, as \<open>YYYY-MM-DDTHH:mm:ss.sssZ\<close>,
  with the expanded year \<open>+YYYYYY\<close> beyond 9999. Time values stay within the range of
  \<open>Date\<close> (below 8.64e15), so the year has at most six digits.

  The date is computed in the 400-year cycle that starts on 1 March 0000: \<open>era\<close> is
  the cycle, \<open>doe\<close> the day in the cycle, \<open>yoe\<close> the year in the cycle, \<open>doy\<close> the
  day in the year that starts in March, \<open>mp\<close> the month counted from March.
\<close>

definition civil_of_mp :: "nat \<Rightarrow> nat \<Rightarrow> nat \<Rightarrow> nat \<times> nat \<times> nat" where
  "civil_of_mp y doy mp =
     (if mp < 10 then (y, mp + 3, doy + 1 - (153 * mp + 2) div 5)
      else (y + 1, mp - 9, doy + 1 - (153 * mp + 2) div 5))"

definition civil_of_doy :: "nat \<Rightarrow> nat \<Rightarrow> nat \<times> nat \<times> nat" where
  "civil_of_doy y doy = civil_of_mp y doy ((5 * doy + 2) div 153)"

definition civil_of_yoe :: "nat \<Rightarrow> nat \<Rightarrow> nat \<Rightarrow> nat \<times> nat \<times> nat" where
  "civil_of_yoe era doe yoe = civil_of_doy (yoe + era * 400) (doe + yoe div 100 - 365 * yoe - yoe div 4)"

definition civil_of_doe :: "nat \<Rightarrow> nat \<Rightarrow> nat \<times> nat \<times> nat" where
  "civil_of_doe era doe =
     civil_of_yoe era doe ((doe + doe div 36524 - doe div 1460 - doe div 146096) div 365)"

definition civil_from_days :: "nat \<Rightarrow> nat \<times> nat \<times> nat" where
  "civil_from_days days = civil_of_doe ((days + 719468) div 146097) ((days + 719468) mod 146097)"

fun iso_format :: "nat \<times> nat \<times> nat \<Rightarrow> nat \<Rightarrow> string" where
  "iso_format (y, m, d) ms =
     (if y \<le> 9999 then pad4 y else CHR ''+'' # pad6 y) @ ''-'' @ pad2 m @ ''-'' @ pad2 d
     @ ''T'' @ pad2 (ms div 3600000) @ '':'' @ pad2 (ms div 60000 mod 60)
     @ '':'' @ pad2 (ms div 1000 mod 60) @ ''.'' @ pad3 (ms mod 1000) @ ''Z''"

definition toISOString :: "nat \<Rightarrow> string" where
  "toISOString t = iso_format (civil_from_days (t div 86400000)) (t mod 86400000)"

text \<open>\<open>new Date().toISOString()\<close>: one clock reading, formatted.\<close>

definition new_Date_toISOString :: "platform \<Rightarrow> world \<Rightarrow> string \<times> world" where
  "new_Date_toISOString env w = (let (t, w') = Date_now env w in (toISOString t, w'))"

section \<open>Local persistence adapter (profilesStore.ts)\<close>

definition storageKey :: "string \<Rightarrow> string" where
  "storageKey userId = ''profiles:'' @ userId"

text \<open>
  The \<open>try\<close> block of \<open>loadFromStorage\<close>; \<open>Inl\<close> is an exception on its way to the
  \<open>catch\<close>, \<open>Inr None\<close> is \<open>return null\<close>.
\<close>

definition loadFromStorage_try :: "platform \<Rightarrow> string \<Rightarrow> world \<Rightarrow> (error + jsval option) \<times> world" where
  "loadFromStorage_try env userId w =
     (case getItem (storageKey userId) w of
        (Inl e, w') \<Rightarrow> (Inl e, w')
      | (Inr None, w') \<Rightarrow> (Inr None, w')
      | (Inr (Some raw), w') \<Rightarrow>
          if raw = [] then (Inr None, w')
          else (case JSON_parse env raw of
                  None \<Rightarrow> (Inl SyntaxError, w')
                | Some parsed \<Rightarrow>
                    if \<not> truthy parsed then (Inr None, w')
                    else (case getProp parsed ''profiles'' of
                            Inl e \<Rightarrow> (Inl e, w')
                          | Inr ps \<Rightarrow> if \<not> isArray ps then (Inr None, w') else (Inr (Some parsed), w'))))"

definition loadFromStorage :: "platform \<Rightarrow> string \<Rightarrow> world \<Rightarrow> jsval option \<times> world" where
  "loadFromStorage env userId w =
     (case loadFromStorage_try env userId w of
        (Inl e, w') \<Rightarrow> (None, w')
      | (Inr r, w') \<Rightarrow> (r, w'))"

text \<open>\<open>saveToStorage\<close>: both the serialization and the write sit inside the \<open>try\<close>.\<close>

definition saveToStorage_try :: "platform \<Rightarrow> string \<Rightarrow> jsval \<Rightarrow> world \<Rightarrow> (error + unit) \<times> world" where
  "saveToStorage_try env userId payload w =
     (case JSON_stringify env payload of
        None \<Rightarrow> (Inl TypeError, w)
      | Some txt \<Rightarrow> setItem (storageKey userId) txt w)"

definition saveToStorage :: "platform \<Rightarrow> string \<Rightarrow> jsval \<Rightarrow> world \<Rightarrow> world" where
  "saveToStorage env userId payload w = snd (saveToStorage_try env userId payload w)"

text \<open>\<open>uid\<close>: the time in base 36, a dash, and the random fragment.\<close>

definition uid :: "platform \<Rightarrow> world \<Rightarrow> string \<times> world" where
  "uid env w =
     (let (t, w1) = Date_now env w;
          (r, w2) = Math_random36 env w1
      in (toString36 t @ ''-'' @ r, w2))"

section \<open>Profile collection store (profilesStore.ts)\<close>

record ProfilesState =
  profiles :: "jsval list"
  currentProfileId :: jsval
  loadedForUserId :: "string option"

definition initial_ProfilesState :: ProfilesState where
  "initial_ProfilesState = \<lparr>profiles = [], currentProfileId = JNull, loadedForUserId = None\<rparr>"

text \<open>The object literal handed to \<open>saveToStorage\<close>.\<close>

definition PersistedProfiles :: "jsval list \<Rightarrow> jsval \<Rightarrow> string \<Rightarrow> jsval" where
  "PersistedProfiles ps cur stamp =
     JObj [(''profiles'', JArr ps), (''currentProfileId'', cur), (''updatedAt'', JStr stamp)]"

text \<open>
  \<open>ensureLoaded\<close>. What \<open>loadFromStorage\<close> returns is an object whose \<open>profiles\<close>
  is an array (lemma \<open>loadFromStorage_shape\<close> below), so reading its two properties
  cannot throw.
\<close>

definition ensureLoaded :: "platform \<Rightarrow> string \<Rightarrow> ProfilesState \<times> world \<Rightarrow> ProfilesState \<times> world" where
  "ensureLoaded env userId sw =
     (case sw of (s, w) \<Rightarrow>
        if loadedForUserId s = Some userId then (s, w)
        else (case loadFromStorage env userId w of
                (Some persisted, w1) \<Rightarrow>
                  (\<lparr>profiles = arrayItems (getPropOpt persisted ''profiles''),
                    currentProfileId = getPropOpt persisted ''currentProfileId'',
                    loadedForUserId = Some userId\<rparr>, w1)
              | (None, w1) \<Rightarrow>
                  (case new_Date_toISOString env w1 of (stamp, w2) \<Rightarrow>
                     (\<lparr>profiles = [], currentProfileId = JNull, loadedForUserId = Some userId\<rparr>,
                      saveToStorage env userId (PersistedProfiles [] JNull stamp) w2))))"

text \<open>\<open>if (loadedForUserId)\<close>: neither \<open>null\<close> nor the empty string.\<close>

fun truthyId :: "string option \<Rightarrow> bool" where
  "truthyId None = False"
| "truthyId (Some u) = (u \<noteq> [])"

definition setCurrentProfile :: "platform \<Rightarrow> string option \<Rightarrow> ProfilesState \<times> world \<Rightarrow> ProfilesState \<times> world" where
  "setCurrentProfile env profileId sw =
     (case sw of (s, w) \<Rightarrow>
        if truthyId (loadedForUserId s)
        then (case new_Date_toISOString env w of (stamp, w1) \<Rightarrow>
                (s\<lparr>currentProfileId := ofStringOrNull profileId\<rparr>,
                 saveToStorage env (the (loadedForUserId s))
                   (PersistedProfiles (profiles s) (ofStringOrNull profileId) stamp) w1))
        else (s\<lparr>currentProfileId := ofStringOrNull profileId\<rparr>, w))"

text \<open>
  The object literal of \<open>addProfile\<close>:
  \<open>{ id: uid(), ...data, createdAt: ..., updatedAt: ... }\<close>, evaluated left to right.
\<close>

definition newProfile :: "string \<Rightarrow> (string \<times> jsval) list \<Rightarrow> string \<Rightarrow> string \<Rightarrow> jsval" where
  "newProfile i data created updated =
     JObj (AList.update ''updatedAt'' (JStr updated)
            (AList.update ''createdAt'' (JStr created) (spread [(''id'', JStr i)] data)))"

definition addProfile_set :: "string \<Rightarrow> jsval \<Rightarrow> ProfilesState \<Rightarrow> ProfilesState" where
  "addProfile_set userId profile s =
     \<lparr>profiles = profiles s @ [profile],
      currentProfileId = nullish_or (currentProfileId s) (getPropOpt profile ''id''),
      loadedForUserId = Some userId\<rparr>"

definition addProfile :: "platform \<Rightarrow> string \<Rightarrow> (string \<times> jsval) list \<Rightarrow> ProfilesState \<times> world \<Rightarrow> jsval \<times> ProfilesState \<times> world" where
  "addProfile env userId data sw =
     (case sw of (s, w) \<Rightarrow>
      case uid env w of (i, w1) \<Rightarrow>
      case new_Date_toISOString env w1 of (created, w2) \<Rightarrow>
      case new_Date_toISOString env w2 of (updated, w3) \<Rightarrow>
      case new_Date_toISOString env w3 of (stamp, w4) \<Rightarrow>
        (newProfile i data created updated,
         addProfile_set userId (newProfile i data created updated) s,
         saveToStorage env userId
           (PersistedProfiles (profiles s @ [newProfile i data created updated])
              (nullish_or (currentProfileId s) (getPropOpt (newProfile i data created updated) ''id''))
              stamp) w4))"

text \<open>
  The callback of \<open>profiles.map\<close> in \<open>updateProfile\<close>, run over the array in order:
  \<open>p.id\<close> throws on a \<open>null\<close> element, and every matching element costs one clock
  reading.
\<close>

fun updateProfile_map :: "platform \<Rightarrow> string \<Rightarrow> (string \<times> jsval) list \<Rightarrow> jsval list \<Rightarrow> world \<Rightarrow> (error + jsval list) \<times> world" where
  "updateProfile_map env ident changes [] w = (Inr [], w)"
| "updateProfile_map env ident changes (p # ps) w =
     (case getProp p ''id'' of
        Inl e \<Rightarrow> (Inl e, w)
      | Inr v \<Rightarrow>
          if v = JStr ident
          then (case new_Date_toISOString env w of (stamp, w1) \<Rightarrow>
                  (case updateProfile_map env ident changes ps w1 of
                     (Inl e, w2) \<Rightarrow> (Inl e, w2)
                   | (Inr rest, w2) \<Rightarrow>
                       (Inr (JObj (AList.update ''updatedAt'' (JStr stamp)
                                    (spread (spread [] (objProps p)) changes)) # rest), w2)))
          else (case updateProfile_map env ident changes ps w of
                  (Inl e, w2) \<Rightarrow> (Inl e, w2)
                | (Inr rest, w2) \<Rightarrow> (Inr (p # rest), w2)))"

text \<open>
  \<open>updateProfile\<close>; \<open>Inl\<close> is the exception the caller sees, thrown before \<open>set\<close>
  was reached, so the store is as it was.
\<close>

definition updateProfile :: "platform \<Rightarrow> string \<Rightarrow> string \<Rightarrow> (string \<times> jsval) list \<Rightarrow> ProfilesState \<times> world \<Rightarrow> (error + unit) \<times> ProfilesState \<times> world" where
  "updateProfile env userId ident changes sw =
     (case sw of (s, w) \<Rightarrow>
      case updateProfile_map env ident changes (profiles s) w of
        (Inl e, w1) \<Rightarrow> (Inl e, s, w1)
      | (Inr next, w1) \<Rightarrow>
          (case new_Date_toISOString env w1 of (stamp, w2) \<Rightarrow>
             (Inr (), s\<lparr>profiles := next\<rparr>,
              saveToStorage env userId (PersistedProfiles next (currentProfileId s) stamp) w2)))"

text \<open>The callback of \<open>profiles.filter\<close> in \<open>removeProfile\<close>.\<close>

fun removeProfile_filter :: "string \<Rightarrow> jsval list \<Rightarrow> error + jsval list" where
  "removeProfile_filter ident [] = Inr []"
| "removeProfile_filter ident (p # ps) =
     (case getProp p ''id'' of
        Inl e \<Rightarrow> Inl e
      | Inr v \<Rightarrow>
          (case removeProfile_filter ident ps of
             Inl e \<Rightarrow> Inl e
           | Inr rest \<Rightarrow> Inr (if v \<noteq> JStr ident then p # rest else rest)))"

text \<open>\<open>next[0]?.id ?? null\<close>\<close>

fun firstId :: "jsval list \<Rightarrow> jsval" where
  "firstId [] = JNull"
| "firstId (p # ps) = nullish_or (getPropOpt p ''id'') JNull"

definition removeProfile :: "platform \<Rightarrow> string \<Rightarrow> string \<Rightarrow> ProfilesState \<times> world \<Rightarrow> (error + unit) \<times> ProfilesState \<times> world" where
  "removeProfile env userId ident sw =
     (case sw of (s, w) \<Rightarrow>
      case removeProfile_filter ident (profiles s) of
        Inl e \<Rightarrow> (Inl e, s, w)
      | Inr next \<Rightarrow>
          (case new_Date_toISOString env w of (stamp, w1) \<Rightarrow>
             (Inr (),
              s\<lparr>profiles := next,
                currentProfileId := (if currentProfileId s = JStr ident then firstId next else currentProfileId s)\<rparr>,
              saveToStorage env userId
                (PersistedProfiles next
                   (if currentProfileId s = JStr ident then firstId next else currentProfileId s) stamp) w1)))"

definition reset :: "ProfilesState \<Rightarrow> ProfilesState" where
  "reset s = s\<lparr>profiles := [], currentProfileId := JNull, loadedForUserId := None\<rparr>"

section \<open>Session and account store (authStore.ts)\<close>

text \<open>
  The store is asynchronous; each action is modelled from its call to its settlement,
  as one step on the store. The awaited calls of the Supabase client are parameters:
  \<open>Inl\<close> is a promise that rejects (the \<open>await\<close> throws), \<open>Inr\<close> the value it
  resolves to. A query resolves to \<open>{ data, error }\<close>.
\<close>

record User =
  user_id :: string
  user_email :: "string option"

record Session =
  session_user :: User
  access_token :: string

record query_result =
  q_data :: "jsval list option"
  q_error :: "error option"

record signin_result =
  si_data :: "(User \<times> Session) option"
  si_error :: "error option"

record provider =
  getSession :: "error + Session option"
  signInWithPassword :: "string \<Rightarrow> string \<Rightarrow> error + signin_result"
  signOut :: "error + error option"
  select_accounts_eq :: "string \<Rightarrow> string \<Rightarrow> error + query_result"

record AuthState =
  session :: "Session option"
  user :: "User option"
  account :: "jsval option"
  isAuthenticated :: bool

definition initial_AuthState :: AuthState where
  "initial_AuthState = \<lparr>session = None, user = None, account = None, isAuthenticated = False\<rparr>"

text \<open>\<open>a || b\<close>\<close>

definition truthy_or :: "jsval \<Rightarrow> jsval \<Rightarrow> jsval" where
  "truthy_or a b = (if truthy a then a else b)"

definition mapRowToAccount :: "jsval \<Rightarrow> jsval" where
  "mapRowToAccount row =
     JObj [(''id'', getPropOpt row ''id''),
           (''email'', getPropOpt row ''email''),
           (''pharmacyName'', getPropOpt row ''pharmacy_name''),
           (''pharmacyPhone'', nullish_or (getPropOpt row ''pharmacy_phone'') JNull),
           (''subscriptionStatus'', truthy_or (getPropOpt row ''subscription_status'') (JStr ''inactive'')),
           (''createdAt'', getPropOpt row ''created_at''),
           (''updatedAt'', nullish_or (getPropOpt row ''updated_at'') JNull),
           (''address1'', nullish_or (getPropOpt row ''address1'') JNull),
           (''city'', nullish_or (getPropOpt row ''city'') JNull),
           (''state'', nullish_or (getPropOpt row ''state'') JNull),
           (''zipcode'', nullish_or (getPropOpt row ''zipcode'') JNull)]"

text \<open>\<open>!err && data && data.length > 0\<close>, and then \<open>data[0]\<close>.\<close>

definition first_row :: "query_result \<Rightarrow> jsval option" where
  "first_row r =
     (case q_error r of
        Some e \<Rightarrow> None
      | None \<Rightarrow> (case q_data r of None \<Rightarrow> None | Some [] \<Rightarrow> None | Some (row # rows) \<Rightarrow> Some row))"

text \<open>
  The \<open>try\<close> block of \<open>findAccountRow\<close>. \<open>Inl\<close> is an exception on its way to the
  \<open>catch\<close>; \<open>Inr None\<close> is leaving the block without a \<open>return\<close>.
\<close>

definition findAccountRow_try :: "provider \<Rightarrow> User \<Rightarrow> error + jsval option" where
  "findAccountRow_try sb u =
     (case select_accounts_eq sb ''id'' (user_id u) of
        Inl e \<Rightarrow> Inl e
      | Inr byId \<Rightarrow>
          (case first_row byId of
             Some row \<Rightarrow> Inr (Some row)
           | None \<Rightarrow>
               (case select_accounts_eq sb ''user_id'' (user_id u) of
                  Inl e \<Rightarrow> Inl e
                | Inr byUserId \<Rightarrow>
                    (case first_row byUserId of
                       Some row \<Rightarrow> Inr (Some row)
                     | None \<Rightarrow>
                         if truthyId (user_email u)
                         then (case select_accounts_eq sb ''email'' (the (user_email u)) of
                                 Inl e \<Rightarrow> Inl e
                               | Inr byEmail \<Rightarrow>
                                   (case first_row byEmail of
                                      Some row \<Rightarrow> Inr (Some row)
                                    | None \<Rightarrow> Inr None))
                         else Inr None))))"

text \<open>\<open>findAccountRow\<close>: the row, or \<open>null\<close>, as the settlement of its promise.\<close>

definition findAccountRow :: "provider \<Rightarrow> User \<Rightarrow> error + jsval" where
  "findAccountRow sb u =
     (case findAccountRow_try sb u of
        Inl e \<Rightarrow> Inr JNull
      | Inr None \<Rightarrow> Inr JNull
      | Inr (Some row) \<Rightarrow> Inr row)"

definition signedOut :: AuthState where
  "signedOut = \<lparr>session = None, user = None, account = None, isAuthenticated = False\<rparr>"

definition signedIn :: "Session \<Rightarrow> User \<Rightarrow> jsval \<Rightarrow> AuthState" where
  "signedIn sess u accountRow =
     \<lparr>session = Some sess, user = Some u,
      account = (if truthy accountRow then Some (mapRowToAccount accountRow) else None),
      isAuthenticated = True\<rparr>"

text \<open>
  An action returns how its promise settles (\<open>Inl\<close>: it rejects) and the store it
  leaves behind.
\<close>

definition checkSession :: "provider \<Rightarrow> AuthState \<Rightarrow> (error + unit) \<times> AuthState" where
  "checkSession sb st =
     (case getSession sb of
        Inl e \<Rightarrow> (Inl e, st)
      | Inr None \<Rightarrow> (Inr (), signedOut)
      | Inr (Some sess) \<Rightarrow>
          (case findAccountRow sb (session_user sess) of
             Inl e \<Rightarrow> (Inl e, st)
           | Inr accountRow \<Rightarrow> (Inr (), signedIn sess (session_user sess) accountRow)))"

definition login :: "provider \<Rightarrow> string \<Rightarrow> string \<Rightarrow> AuthState \<Rightarrow> (error + bool) \<times> AuthState" where
  "login sb email password st =
     (case signInWithPassword sb email password of
        Inl e \<Rightarrow> (Inl e, st)
      | Inr r \<Rightarrow>
          (case si_error r of
             Some e \<Rightarrow> (Inl e, st)
           | None \<Rightarrow>
               (case si_data r of
                  None \<Rightarrow> (Inr False, signedOut)
                | Some (u, sess) \<Rightarrow>
                    (case findAccountRow sb u of
                       Inl e \<Rightarrow> (Inl e, st)
                     | Inr accountRow \<Rightarrow> (Inr True, signedIn sess u accountRow)))))"

definition logout :: "provider \<Rightarrow> AuthState \<Rightarrow> (error + unit) \<times> AuthState" where
  "logout sb st =
     (case signOut sb of
        Inl e \<Rightarrow> (Inl e, st)
      | Inr r \<Rightarrow> (Inr (), signedOut))"

section \<open>JSON\<close>

text \<open>
  A model of the runtime's \<open>JSON.stringify\<close> and \<open>JSON.parse\<close> on the values above, to
  instantiate the platform. Serialization keeps of a value what JSON can hold
  (\<open>as_json\<close>): an object loses the properties whose value is \<open>undefined\<close>, an
  \<open>undefined\<close> inside an array becomes \<open>null\<close>, everything else stays. It then writes
  the text without white space, escaping quotes, backslashes and control characters in
  strings. Parsing reads \<open>null\<close>, \<open>true\<close>, \<open>false\<close>, integers, strings, arrays and
  objects, with white space between tokens; a numeral with a fraction or an exponent
  and an escape for a code unit above 255 denote no value of this model and are
  reported as syntax errors. The parser recurses on a budget of steps, set from the
  length of the text.
\<close>

definition hex_digit :: "nat \<Rightarrow> char" where
  "hex_digit d = ''0123456789abcdef'' ! (d mod 16)"

definition json_escape :: "char \<Rightarrow> string" where
  "json_escape c =
     (if c = CHR 0x22 then [CHR 0x5C, CHR 0x22]
      else if c = CHR 0x5C then [CHR 0x5C, CHR 0x5C]
      else if c = CHR 0x08 then [CHR 0x5C, CHR ''b'']
      else if c = CHR 0x0C then [CHR 0x5C, CHR ''f'']
      else if c = CHR 0x0A then [CHR 0x5C, CHR ''n'']
      else if c = CHR 0x0D then [CHR 0x5C, CHR ''r'']
      else if c = CHR 0x09 then [CHR 0x5C, CHR ''t'']
      else if of_char c < (32::nat)
           then [CHR 0x5C, CHR ''u'', CHR ''0'', CHR ''0'', hex_digit (of_char c div 16), hex_digit (of_char c)]
      else [c])"

definition json_quote :: "string \<Rightarrow> string" where
  "json_quote s = CHR 0x22 # concat (map json_escape s) @ [CHR 0x22]"

function decimal :: "nat \<Rightarrow> string" where
  "decimal n = (if n < 10 then [dig n] else decimal (n div 10) @ [dig n])"
  by pat_completeness auto
termination
  by (relation "measure id") auto

declare decimal.simps [simp del]

text \<open>
  An association list read by first match stands for an object; \<open>as_json_members\<close>
  walks it with the names already met, so that a property is kept once, with the
  value a read would give.
\<close>

fun as_json :: "jsval \<Rightarrow> jsval"
  and as_json_elems :: "jsval list \<Rightarrow> jsval list"
  and as_json_members :: "string list \<Rightarrow> (string \<times> jsval) list \<Rightarrow> (string \<times> jsval) list" where
  "as_json (JArr xs) = JArr (as_json_elems xs)"
| "as_json (JObj kvs) = JObj (as_json_members [] kvs)"
| "as_json v = v"
| "as_json_elems [] = []"
| "as_json_elems (x # xs) = (if x = JUndefined then JNull else as_json x) # as_json_elems xs"
| "as_json_members seen [] = []"
| "as_json_members seen ((k, v) # kvs) =
     (if k \<in> set seen \<or> v = JUndefined then as_json_members (k # seen) kvs
      else (k, as_json v) # as_json_members (k # seen) kvs)"

fun render :: "jsval \<Rightarrow> string"
  and render_elems :: "jsval list \<Rightarrow> string"
  and render_members :: "(string \<times> jsval) list \<Rightarrow> string" where
  "render JUndefined = ''null''"
| "render JNull = ''null''"
| "render (JBool b) = (if b then ''true'' else ''false'')"
| "render (JNum n) = (if n < 0 then CHR ''-'' # decimal (nat (- n)) else decimal (nat n))"
| "render (JStr s) = json_quote s"
| "render (JArr xs) = CHR ''['' # render_elems xs"
| "render (JObj kvs) = CHR ''{'' # render_members kvs"
| "render_elems [] = '']''"
| "render_elems (x # xs) = render x @ (if xs = [] then '']'' else CHR '','' # render_elems xs)"
| "render_members [] = ''}''"
| "render_members ((k, v) # kvs) =
     json_quote k @ CHR '':'' # render v @ (if kvs = [] then ''}'' else CHR '','' # render_members kvs)"

definition json_text :: "jsval \<Rightarrow> string" where
  "json_text v = render (as_json v)"

text \<open>
  \<open>JSON.stringify\<close> as \<open>setItem\<close> receives its result: for \<open>undefined\<close> it returns
  \<open>undefined\<close>, which \<open>setItem\<close> stores as the text \<open>undefined\<close>. A value of this model
  has no cycle, so serialization never throws.
\<close>

definition json_stringify :: "jsval \<Rightarrow> string option" where
  "json_stringify v = Some (if v = JUndefined then ''undefined'' else json_text v)"

definition is_ws :: "char \<Rightarrow> bool" where
  "is_ws c = (c = CHR '' '' \<or> c = CHR 0x0A \<or> c = CHR 0x0D \<or> c = CHR 0x09)"

definition skip_ws :: "string \<Rightarrow> string" where
  "skip_ws s = dropWhile is_ws s"

definition is_digit :: "char \<Rightarrow> bool" where
  "is_digit c = (48 \<le> (of_char c :: nat) \<and> (of_char c :: nat) \<le> 57)"

fun parse_digits :: "nat \<Rightarrow> string \<Rightarrow> nat \<times> string" where
  "parse_digits acc [] = (acc, [])"
| "parse_digits acc (c # cs) =
     (if is_digit c then parse_digits (10 * acc + (of_char c - 48)) cs else (acc, c # cs))"

text \<open>A JSON integer has no leading zero.\<close>

definition parse_nat :: "string \<Rightarrow> nat \<times> string" where
  "parse_nat s = (case s of [] \<Rightarrow> (0, []) | c # cs \<Rightarrow> if c = CHR ''0'' then (0, cs) else parse_digits 0 s)"

definition hex_val :: "char \<Rightarrow> nat option" where
  "hex_val c =
     (let n = (of_char c :: nat)
      in if 48 \<le> n \<and> n \<le> 57 then Some (n - 48)
         else if 97 \<le> n \<and> n \<le> 102 then Some (n - 87)
         else if 65 \<le> n \<and> n \<le> 70 then Some (n - 55)
         else None)"

text \<open>\<open>\uXXXX\<close>, for the code units that fit a character of this model.\<close>

definition hex4 :: "char \<Rightarrow> char \<Rightarrow> char \<Rightarrow> char \<Rightarrow> char option" where
  "hex4 a b c d =
     (case (hex_val a, hex_val b, hex_val c, hex_val d) of
        (Some x, Some y, Some z, Some u) \<Rightarrow>
          if x = 0 \<and> y = 0 then Some (char_of (16 * z + u)) else None
      | _ \<Rightarrow> None)"

definition unescape :: "char \<Rightarrow> char option" where
  "unescape e =
     (if e = CHR 0x22 \<or> e = CHR 0x5C \<or> e = CHR ''/'' then Some e
      else if e = CHR ''b'' then Some (CHR 0x08)
      else if e = CHR ''f'' then Some (CHR 0x0C)
      else if e = CHR ''n'' then Some (CHR 0x0A)
      else if e = CHR ''r'' then Some (CHR 0x0D)
      else if e = CHR ''t'' then Some (CHR 0x09)
      else None)"

definition cons_char :: "char \<Rightarrow> (string \<times> string) option \<Rightarrow> (string \<times> string) option" where
  "cons_char c r = (case r of None \<Rightarrow> None | Some (s, rest) \<Rightarrow> Some (c # s, rest))"

text \<open>The characters of a string literal, after its opening quote.\<close>

fun parse_chars :: "string \<Rightarrow> (string \<times> string) option" where
  "parse_chars [] = None"
| "parse_chars (c # cs) =
     (if c = CHR 0x22 then Some ([], cs)
      else if c = CHR 0x5C
      then (case cs of
              [] \<Rightarrow> None
            | e # cs' \<Rightarrow>
                if e = CHR ''u''
                then (case cs' of
                        a # b # c' # d # r \<Rightarrow>
                          (case hex4 a b c' d of None \<Rightarrow> None | Some ch \<Rightarrow> cons_char ch (parse_chars r))
                      | _ \<Rightarrow> None)
                else (case unescape e of None \<Rightarrow> None | Some ch \<Rightarrow> cons_char ch (parse_chars cs')))
      else if (of_char c :: nat) < 32 then None
      else cons_char c (parse_chars cs))"

text \<open>A repeated key keeps the place of its first occurrence and the value of its last.\<close>

definition add_member :: "string \<Rightarrow> jsval \<Rightarrow> (string \<times> jsval) list \<Rightarrow> (string \<times> jsval) list" where
  "add_member k v kvs =
     (case map_of kvs k of None \<Rightarrow> (k, v) # kvs | Some v' \<Rightarrow> (k, v') # AList.delete k kvs)"

fun parse_value :: "nat \<Rightarrow> string \<Rightarrow> (jsval \<times> string) option"
  and parse_elems :: "nat \<Rightarrow> string \<Rightarrow> (jsval list \<times> string) option"
  and parse_members :: "nat \<Rightarrow> string \<Rightarrow> ((string \<times> jsval) list \<times> string) option" where
  "parse_value 0 s = None"
| "parse_value (Suc n) s =
     (case skip_ws s of
        [] \<Rightarrow> None
      | c # r \<Rightarrow>
          if c = CHR ''n'' then (if take 3 r = ''ull'' then Some (JNull, drop 3 r) else None)
          else if c = CHR ''t'' then (if take 3 r = ''rue'' then Some (JBool True, drop 3 r) else None)
          else if c = CHR ''f'' then (if take 4 r = ''alse'' then Some (JBool False, drop 4 r) else None)
          else if c = CHR 0x22
          then (case parse_chars r of None \<Rightarrow> None | Some (x, r') \<Rightarrow> Some (JStr x, r'))
          else if c = CHR ''[''
          then (case skip_ws r of
                  [] \<Rightarrow> None
                | d # r' \<Rightarrow>
                    if d = CHR '']'' then Some (JArr [], r')
                    else (case parse_elems n (d # r') of None \<Rightarrow> None | Some (xs, r'') \<Rightarrow> Some (JArr xs, r'')))
          else if c = CHR ''{''
          then (case skip_ws r of
                  [] \<Rightarrow> None
                | d # r' \<Rightarrow>
                    if d = CHR ''}'' then Some (JObj [], r')
                    else (case parse_members n (d # r') of None \<Rightarrow> None | Some (kvs, r'') \<Rightarrow> Some (JObj kvs, r'')))
          else if c = CHR ''-''
          then (case r of
                  [] \<Rightarrow> None
                | d # r' \<Rightarrow>
                    if is_digit d then (case parse_nat r of (k, r'') \<Rightarrow> Some (JNum (- int k), r'')) else None)
          else if is_digit c then (case parse_nat (c # r) of (k, r') \<Rightarrow> Some (JNum (int k), r'))
          else None)"
| "parse_elems 0 s = None"
| "parse_elems (Suc n) s =
     (case parse_value n s of
        None \<Rightarrow> None
      | Some (v, r) \<Rightarrow>
          (case skip_ws r of
             [] \<Rightarrow> None
           | c # r' \<Rightarrow>
               if c = CHR '',''
               then (case parse_elems n r' of None \<Rightarrow> None | Some (vs, r'') \<Rightarrow> Some (v # vs, r''))
               else if c = CHR '']'' then Some ([v], r')
               else None))"
| "parse_members 0 s = None"
| "parse_members (Suc n) s =
     (case skip_ws s of
        [] \<Rightarrow> None
      | q # r0 \<Rightarrow>
          if q \<noteq> CHR 0x22 then None
          else (case parse_chars r0 of
                  None \<Rightarrow> None
                | Some (k, r1) \<Rightarrow>
                    (case skip_ws r1 of
                       [] \<Rightarrow> None
                     | c # r2 \<Rightarrow>
                         if c \<noteq> CHR '':'' then None
                         else (case parse_value n r2 of
                                 None \<Rightarrow> None
                               | Some (v, r3) \<Rightarrow>
                                   (case skip_ws r3 of
                                      [] \<Rightarrow> None
                                    | d # r4 \<Rightarrow>
                                        if d = CHR '',''
                                        then (case parse_members n r4 of
                                                None \<Rightarrow> None
                                              | Some (kvs, r5) \<Rightarrow> Some (add_member k v kvs, r5))
                                        else if d = CHR ''}'' then Some ([(k, v)], r4)
                                        else None)))))"

definition json_parse :: "string \<Rightarrow> jsval option" where
  "json_parse s =
     (case parse_value (2 * length s + 2) s of
        None \<Rightarrow> None
      | Some (v, r) \<Rightarrow> if skip_ws r = [] then Some v else None)"

text \<open>
  The values that JSON holds: no \<open>undefined\<close> anywhere, and each property of an object
  once.
\<close>

fun is_json :: "jsval \<Rightarrow> bool"
  and is_json_elems :: "jsval list \<Rightarrow> bool"
  and is_json_members :: "(string \<times> jsval) list \<Rightarrow> bool" where
  "is_json JUndefined = False"
| "is_json (JArr xs) = is_json_elems xs"
| "is_json (JObj kvs) = is_json_members kvs"
| "is_json v = True"
| "is_json_elems [] = True"
| "is_json_elems (x # xs) = (is_json x \<and> is_json_elems xs)"
| "is_json_members [] = True"
| "is_json_members ((k, v) # kvs) = (is_json v \<and> map_of kvs k = None \<and> is_json_members kvs)"

definition json_platform :: "(nat \<Rightarrow> nat) \<Rightarrow> (nat \<Rightarrow> string) \<Rightarrow> platform" where
  "json_platform clk rnd =
     \<lparr>JSON_parse = json_parse, JSON_stringify = json_stringify, clock = clk, random36 = rnd\<rparr>"

section \<open>Predicates and example inputs for the properties\<close>

definition example_env :: platform where
  "example_env = json_platform (\<lambda>n. 1000 * n) (\<lambda>n. ''k3x9q2'')"

definition example_world :: "(string \<times> string) list \<Rightarrow> world" where
  "example_world items =
     \<lparr>storage_available = True, storage_items = items, storage_capacity = 4000,
      storage_reads = 0, clock_reads = 0, random_reads = 0\<rparr>"

definition example_profile :: "string \<Rightarrow> string \<Rightarrow> jsval" where
  "example_profile i owner =
     JObj [(''id'', JStr i), (''accountId'', JStr owner), (''roleType'', JStr ''Pharmacist-PIC''),
           (''firstName'', JStr ''Grace''), (''lastName'', JStr ''Hopper''),
           (''createdAt'', JStr ''2024-01-01T00:00:00.000Z''),
           (''updatedAt'', JStr ''2024-01-01T00:00:00.000Z'')]"

definition example_loaded :: ProfilesState where
  "example_loaded =
     \<lparr>profiles = [example_profile ''p1'' ''acct-1''], currentProfileId = JStr ''p1'',
      loadedForUserId = Some ''acct-1''\<rparr>"

subsection \<open>Account resolution\<close>

text \<open>
  A lookup strategy fails when its query rejects, resolves with an error, or resolves
  with no row. The third strategy is only tried for a user with a non-empty email.
\<close>

definition no_match :: "error + query_result \<Rightarrow> bool" where
  "no_match r = (case r of Inl e \<Rightarrow> True | Inr q \<Rightarrow> q_error q \<noteq> None \<or> q_data q = None \<or> q_data q = Some [])"

definition all_strategies_fail :: "provider \<Rightarrow> User \<Rightarrow> bool" where
  "all_strategies_fail sb u =
     (no_match (select_accounts_eq sb ''id'' (user_id u))
      \<and> no_match (select_accounts_eq sb ''user_id'' (user_id u))
      \<and> (truthyId (user_email u) \<longrightarrow> no_match (select_accounts_eq sb ''email'' (the (user_email u)))))"

definition example_user :: User where
  "example_user = \<lparr>user_id = ''u-42'', user_email = Some ''ada@example.org''\<rparr>"

definition example_session :: Session where
  "example_session = \<lparr>session_user = example_user, access_token = ''token''\<rparr>"

definition unlinked_provider :: provider where
  "unlinked_provider =
     \<lparr>getSession = Inr (Some example_session),
      signInWithPassword = (\<lambda>email password. Inr \<lparr>si_data = Some (example_user, example_session), si_error = None\<rparr>),
      signOut = Inr None,
      select_accounts_eq = (\<lambda>column v.
        if column = ''id'' then Inr \<lparr>q_data = Some [], q_error = None\<rparr>
        else if column = ''user_id'' then Inr \<lparr>q_data = None, q_error = Some (Error ''column accounts.user_id does not exist'')\<rparr>
        else Inl (Error ''Failed to fetch''))\<rparr>"

definition failing_signOut_provider :: provider where
  "failing_signOut_provider = unlinked_provider\<lparr>signOut := Inl (Error ''Failed to fetch'')\<rparr>"

definition example_signedIn :: AuthState where
  "example_signedIn = signedIn example_session example_user JNull"

subsection \<open>The interfaces of types/index.ts as predicates on values\<close>

fun isString :: "jsval \<Rightarrow> bool" where
  "isString (JStr s) = True"
| "isString v = False"

fun isBoolean :: "jsval \<Rightarrow> bool" where
  "isBoolean (JBool b) = True"
| "isBoolean v = False"

definition isRoleType :: "jsval \<Rightarrow> bool" where
  "isRoleType v = (v = JStr ''Pharmacist-PIC'' \<or> v = JStr ''Pharmacist-Staff'' \<or> v = JStr ''Pharmacy Technician'')"

text \<open>
  A required property is present with a value of its type. An optional property
  (\<open>phoneNumber?: string\<close>) is absent, or present with \<open>undefined\<close> or with a value of
  its type; the profile form passes \<open>undefined\<close> for every optional field left empty.
\<close>

definition required :: "(jsval \<Rightarrow> bool) \<Rightarrow> (string \<times> jsval) list \<Rightarrow> string \<Rightarrow> bool" where
  "required ty kvs k = (case map_of kvs k of None \<Rightarrow> False | Some v \<Rightarrow> ty v)"

definition optional :: "(jsval \<Rightarrow> bool) \<Rightarrow> (string \<times> jsval) list \<Rightarrow> string \<Rightarrow> bool" where
  "optional ty kvs k = (case map_of kvs k of None \<Rightarrow> True | Some v \<Rightarrow> v = JUndefined \<or> ty v)"

fun isMemberProfile :: "jsval \<Rightarrow> bool" where
  "isMemberProfile (JObj kvs) =
     (required isString kvs ''id'' \<and> required isString kvs ''accountId''
      \<and> required isRoleType kvs ''roleType''
      \<and> required isString kvs ''firstName'' \<and> required isString kvs ''lastName''
      \<and> optional isString kvs ''phoneNumber'' \<and> optional isString kvs ''profileEmail''
      \<and> optional isString kvs ''dobMonth'' \<and> optional isString kvs ''dobDay''
      \<and> optional isString kvs ''dobYear'' \<and> optional isString kvs ''licenseNumber''
      \<and> optional isString kvs ''nabpEprofileId'' \<and> optional isBoolean kvs ''isActive''
      \<and> required isString kvs ''createdAt'' \<and> optional isString kvs ''updatedAt'')"
| "isMemberProfile v = False"

definition isStringOrNull :: "jsval \<Rightarrow> bool" where
  "isStringOrNull v = (v = JNull \<or> isString v)"

text \<open>The interface \<open>PersistedProfiles\<close> of profilesStore.ts.\<close>

fun isPersistedProfiles :: "jsval \<Rightarrow> bool" where
  "isPersistedProfiles (JObj kvs) =
     (required (\<lambda>v. isArray v \<and> list_all isMemberProfile (arrayItems v)) kvs ''profiles''
      \<and> required isStringOrNull kvs ''currentProfileId''
      \<and> required isString kvs ''updatedAt'')"
| "isPersistedProfiles v = False"

text \<open>
  Equality field for field. Two profiles are the same when every property that
  \<open>MemberProfile\<close> declares reads the same in both; two snapshots are the same when
  they hold as many profiles, the same profile at every position, and the same
  \<open>currentProfileId\<close> and \<open>updatedAt\<close>. Reading a property gives \<open>undefined\<close> both when
  it is absent and when it is present with \<open>undefined\<close>.
\<close>

definition MemberProfile_fields :: "string list" where
  "MemberProfile_fields =
     [''id'', ''accountId'', ''roleType'', ''firstName'', ''lastName'', ''phoneNumber'', ''profileEmail'',
      ''dobMonth'', ''dobDay'', ''dobYear'', ''licenseNumber'', ''nabpEprofileId'', ''isActive'',
      ''createdAt'', ''updatedAt'']"

definition same_profile :: "jsval \<Rightarrow> jsval \<Rightarrow> bool" where
  "same_profile p' p = list_all (\<lambda>k. getPropOpt p' k = getPropOpt p k) MemberProfile_fields"

definition same_snapshot :: "jsval \<Rightarrow> jsval \<Rightarrow> bool" where
  "same_snapshot S' S =
     (list_all2 same_profile (arrayItems (getPropOpt S' ''profiles'')) (arrayItems (getPropOpt S ''profiles''))
      \<and> getPropOpt S' ''currentProfileId'' = getPropOpt S ''currentProfileId''
      \<and> getPropOpt S' ''updatedAt'' = getPropOpt S ''updatedAt'')"

subsection \<open>Runs and example states of the profile store\<close>

text \<open>A sequence of \<open>addProfile\<close> calls, each given as account id and data.\<close>

fun addProfiles :: "platform \<Rightarrow> (string \<times> (string \<times> jsval) list) list \<Rightarrow> ProfilesState \<times> world \<Rightarrow> ProfilesState \<times> world" where
  "addProfiles env [] sw = sw"
| "addProfiles env ((userId, data) # calls) sw = addProfiles env calls (snd (addProfile env userId data sw))"

definition scenario_data :: "(string \<times> jsval) list" where
  "scenario_data =
     [(''roleType'', JStr ''Pharmacy Technician''), (''firstName'', JStr ''Ada''), (''lastName'', JStr ''Lovelace'')]"

definition three_profiles :: ProfilesState where
  "three_profiles =
     \<lparr>profiles = [example_profile ''p1'' ''acct-1'', example_profile ''p2'' ''acct-1'',
                  example_profile ''p3'' ''acct-1''],
      currentProfileId = JStr ''p2'', loadedForUserId = Some ''acct-1''\<rparr>"

text \<open>A selection that names no profile, reached through the store's own interface.\<close>

definition stale_selection :: ProfilesState where
  "stale_selection = fst (setCurrentProfile example_env (Some ''ghost'') (example_loaded, example_world []))"

text \<open>
  A snapshot as the store writes it after the profile form added a profile: the form
  passes \<open>undefined\<close> for every optional field left empty. And the snapshot read
  back from its text.
\<close>

definition written_profile :: jsval where
  "written_profile =
     JObj [(''id'', JStr ''p7''), (''accountId'', JStr ''acct-1''), (''roleType'', JStr ''Pharmacist-Staff''),
           (''firstName'', JStr ''Alan''), (''lastName'', JStr ''Turing''),
           (''phoneNumber'', JUndefined), (''profileEmail'', JStr ''alan@example.org''),
           (''dobMonth'', JUndefined), (''dobDay'', JUndefined), (''dobYear'', JUndefined),
           (''licenseNumber'', JUndefined), (''nabpEprofileId'', JUndefined), (''isActive'', JBool True),
           (''createdAt'', JStr ''2024-01-01T00:00:00.000Z''), (''updatedAt'', JStr ''2024-01-01T00:00:00.000Z'')]"

definition written_snapshot :: jsval where
  "written_snapshot = PersistedProfiles [written_profile] (JStr ''p7'') ''2024-01-01T00:00:00.000Z''"

definition read_snapshot :: jsval where
  "read_snapshot =
     JObj [(''profiles'', JArr [
             JObj [(''id'', JStr ''p7''), (''accountId'', JStr ''acct-1''), (''roleType'', JStr ''Pharmacist-Staff''),
                   (''firstName'', JStr ''Alan''), (''lastName'', JStr ''Turing''),
                   (''profileEmail'', JStr ''alan@example.org''), (''isActive'', JBool True),
                   (''createdAt'', JStr ''2024-01-01T00:00:00.000Z''),
                   (''updatedAt'', JStr ''2024-01-01T00:00:00.000Z'')]]),
           (''currentProfileId'', JStr ''p7''),
           (''updatedAt'', JStr ''2024-01-01T00:00:00.000Z'')]"

text \<open>
  What \<open>addProfile\<close> creates from \<open>scenario_data\<close> under \<open>example_env\<close> in a fresh world.
\<close>

definition scenario_profile :: jsval where
  "scenario_profile =
     JObj [(''id'', JStr ''0-k3x9q2''), (''roleType'', JStr ''Pharmacy Technician''),
           (''firstName'', JStr ''Ada''), (''lastName'', JStr ''Lovelace''),
           (''createdAt'', JStr ''1970-01-01T00:00:01.000Z''),
           (''updatedAt'', JStr ''1970-01-01T00:00:02.000Z'')]"

definition license_change :: "(string \<times> jsval) list" where
  "license_change = [(''licenseNumber'', JStr ''TX-12345'')]"

text \<open>A platform whose clock does not advance between readings.\<close>

definition frozen_env :: platform where
  "frozen_env = json_platform (\<lambda>n. 5000) (\<lambda>n. ''k3x9q2'')"

text \<open>The owning-account identifiers of a collection, in order.\<close>

definition accountIds :: "jsval list \<Rightarrow> jsval list" where
  "accountIds ps = map (\<lambda>p. getPropOpt p ''accountId'') ps"

definition reassignment :: "(string \<times> jsval) list" where
  "reassignment = [(''accountId'', JStr ''acct-2'')]"

text \<open>
  The owning-account identifiers after every profile whose \<open>id\<close> is \<open>i\<close> has received
  the owner \<open>a\<close>.
\<close>

definition reowned :: "string \<Rightarrow> jsval \<Rightarrow> jsval list \<Rightarrow> jsval list" where
  "reowned i a ps = map (\<lambda>p. if getPropOpt p ''id'' = JStr i then a else getPropOpt p ''accountId'') ps"

section \<open>Properties of the local persistence adapter\<close>

lemma loadFromStorage_shape:
  assumes "loadFromStorage env userId w = (Some v, w')"
  shows "\<exists>kvs ps. v = JObj kvs \<and> map_of kvs ''profiles'' = Some (JArr ps)"
proof -
  from assms have "\<exists>ps. getProp v ''profiles'' = Inr ps \<and> isArray ps"
    by (auto simp: loadFromStorage_def loadFromStorage_try_def
             split: prod.splits sum.splits option.splits if_splits)
  then obtain ps where g: "getProp v ''profiles'' = Inr ps" and a: "isArray ps" by blast
  from a obtain xs where ps: "ps = JArr xs" by (cases ps) auto
  from g ps show ?thesis
    by (cases v) (auto split: option.splits)
qed

lemma loadFromStorage_missing:
  "map_of (storage_items w) (storageKey userId) = None \<Longrightarrow> fst (loadFromStorage env userId w) = None"
  by (simp add: loadFromStorage_def loadFromStorage_try_def getItem_def)

lemma loadFromStorage_unparsable:
  "map_of (storage_items w) (storageKey userId) = Some raw \<Longrightarrow> JSON_parse env raw = None
   \<Longrightarrow> fst (loadFromStorage env userId w) = None"
  by (simp add: loadFromStorage_def loadFromStorage_try_def getItem_def)

lemma loadFromStorage_not_array:
  "map_of (storage_items w) (storageKey userId) = Some raw \<Longrightarrow> JSON_parse env raw = Some v
   \<Longrightarrow> \<not> isArray (getPropOpt v ''profiles'') \<Longrightarrow> fst (loadFromStorage env userId w) = None"
  by (cases "getProp v ''profiles''")
     (simp_all add: loadFromStorage_def loadFromStorage_try_def getItem_def getPropOpt_def)

lemma loadFromStorage_catches:
  "fst (loadFromStorage_try env userId w) = Inl e \<Longrightarrow> fst (loadFromStorage env userId w) = None"
  by (cases "loadFromStorage_try env userId w") (simp add: loadFromStorage_def)

text \<open>
  Claim C5 (malformed-storage tolerance). For every account id, \<open>loadFromStorage\<close>
  returns \<open>null\<close> when no value is stored under the account's key, when the stored
  text is not valid JSON (\<open>JSON.parse\<close> throws), and when it parses to a value whose
  \<open>profiles\<close> is not an array. It never throws: whatever exception the \<open>try\<close> block
  raises ends in the \<open>catch\<close>, which returns \<open>null\<close>.
\<close>

theorem loadFromStorage_tolerates:
  "(map_of (storage_items w) (storageKey userId) = None \<longrightarrow> fst (loadFromStorage env userId w) = None)
   \<and> (map_of (storage_items w) (storageKey userId) = Some raw \<and> JSON_parse env raw = None
        \<longrightarrow> fst (loadFromStorage env userId w) = None)
   \<and> (map_of (storage_items w) (storageKey userId) = Some raw \<and> JSON_parse env raw = Some v
        \<and> \<not> isArray (getPropOpt v ''profiles'')
        \<longrightarrow> fst (loadFromStorage env userId w) = None)
   \<and> (fst (loadFromStorage_try env userId w) = Inl e \<longrightarrow> fst (loadFromStorage env userId w) = None)"
  using loadFromStorage_missing loadFromStorage_unparsable loadFromStorage_not_array loadFromStorage_catches
  by blast

lemma json_parse_examples:
  "json_parse ''not json'' = None"
  "json_parse ''{\"profiles\":{}}'' = Some (JObj [(''profiles'', JObj [])])"
  by code_simp+

theorem loadFromStorage_tolerates_witness:
  "fst (loadFromStorage example_env ''acct-1'' (example_world [])) = None
   \<and> JSON_parse example_env ''not json'' = None
   \<and> fst (loadFromStorage example_env ''acct-1'' (example_world [(''profiles:acct-1'', ''not json'')])) = None
   \<and> JSON_parse example_env ''{\"profiles\":{}}'' = Some (JObj [(''profiles'', JObj [])])
   \<and> fst (loadFromStorage example_env ''acct-1'' (example_world [(''profiles:acct-1'', ''{\"profiles\":{}}'')])) = None
   \<and> fst (loadFromStorage_try example_env ''acct-1'' ((example_world [])\<lparr>storage_available := False\<rparr>))
       = Inl SecurityError
   \<and> fst (loadFromStorage example_env ''acct-1'' ((example_world [])\<lparr>storage_available := False\<rparr>)) = None"
  using loadFromStorage_tolerates [of "example_world []" "''acct-1''" example_env]
        loadFromStorage_tolerates [of "example_world [(''profiles:acct-1'', ''not json'')]" "''acct-1''" example_env
          "''not json''"]
        loadFromStorage_tolerates [of "example_world [(''profiles:acct-1'', ''{\"profiles\":{}}'')]" "''acct-1''" example_env
          "''{\"profiles\":{}}''" "JObj [(''profiles'', JObj [])]"]
        loadFromStorage_tolerates [of "(example_world [])\<lparr>storage_available := False\<rparr>" "''acct-1''" example_env
          "[]" JNull SecurityError]
  by (simp add: example_world_def storageKey_def example_env_def json_platform_def json_parse_examples
        getPropOpt_def loadFromStorage_try_def getItem_def)

section \<open>Properties of the profile collection store\<close>

lemma ensureLoaded_loaded: "loadedForUserId (fst (ensureLoaded env A sw)) = Some A"
  by (cases sw) (auto simp: ensureLoaded_def split: prod.splits option.splits)

text \<open>
  Claim C1 (idempotent hydration). If \<open>loadedForUserId\<close> already equals the account id,
  \<open>ensureLoaded\<close> changes neither the store nor the world: in particular the count of
  storage reads stays as it was. Hence a second call right after a first one changes
  nothing, whichever branch the first call took.
\<close>

theorem ensureLoaded_idempotent:
  "(loadedForUserId s = Some A \<longrightarrow> ensureLoaded env A (s, w) = (s, w))
   \<and> ensureLoaded env A (ensureLoaded env A (s, w)) = ensureLoaded env A (s, w)"
proof
  show "loadedForUserId s = Some A \<longrightarrow> ensureLoaded env A (s, w) = (s, w)"
    by (simp add: ensureLoaded_def)
next
  obtain s' w' where r: "ensureLoaded env A (s, w) = (s', w')" by (cases "ensureLoaded env A (s, w)")
  with ensureLoaded_loaded [of env A "(s, w)"] have "loadedForUserId s' = Some A" by simp
  then have "ensureLoaded env A (s', w') = (s', w')" by (simp add: ensureLoaded_def)
  with r show "ensureLoaded env A (ensureLoaded env A (s, w)) = ensureLoaded env A (s, w)" by simp
qed

theorem ensureLoaded_idempotent_witness:
  "loadedForUserId example_loaded = Some ''acct-1''
   \<and> ensureLoaded example_env ''acct-1'' (example_loaded, example_world []) = (example_loaded, example_world [])
   \<and> storage_reads (snd (ensureLoaded example_env ''acct-1'' (example_loaded, example_world [])))
       = storage_reads (example_world [])"
  using ensureLoaded_idempotent [of example_loaded "''acct-1''" example_env "example_world []"]
  by (simp add: example_loaded_def)

section \<open>Properties of the session and account store\<close>

lemma first_row_no_match: "no_match (Inr q) \<Longrightarrow> first_row q = None"
  by (auto simp: no_match_def first_row_def split: option.splits list.splits)

lemma findAccountRow_never_rejects: "\<exists>row. findAccountRow sb u = Inr row"
  by (simp add: findAccountRow_def split: sum.splits option.splits)

lemma findAccountRow_absent:
  assumes "all_strategies_fail sb u"
  shows "findAccountRow sb u = Inr JNull"
proof -
  have "findAccountRow_try sb u = Inr (Some row) \<Longrightarrow> False" for row
    using assms
    by (auto simp: findAccountRow_try_def all_strategies_fail_def first_row_no_match
             split: sum.splits option.splits if_splits)
  then show ?thesis
    by (auto simp: findAccountRow_def split: sum.splits option.splits)
qed

text \<open>
  Claim C2 (authentication does not depend on account linkage). Account resolution
  never rejects; when all three strategies fail it yields \<open>null\<close>. With a session,
  \<open>checkSession\<close> and \<open>login\<close> set \<open>isAuthenticated\<close> whatever the resolution
  returns, and set \<open>account\<close> to \<open>null\<close> when all strategies fail.
\<close>

theorem authentication_independent_of_account:
  "(\<exists>row. findAccountRow sb u = Inr row)
   \<and> (all_strategies_fail sb u \<longrightarrow> findAccountRow sb u = Inr JNull)
   \<and> (getSession sb = Inr (Some sess) \<longrightarrow>
        fst (checkSession sb st) = Inr () \<and> isAuthenticated (snd (checkSession sb st))
        \<and> session (snd (checkSession sb st)) = Some sess)
   \<and> (getSession sb = Inr (Some sess) \<and> all_strategies_fail sb (session_user sess) \<longrightarrow>
        isAuthenticated (snd (checkSession sb st)) \<and> account (snd (checkSession sb st)) = None)
   \<and> (signInWithPassword sb email password = Inr \<lparr>si_data = Some (u, sess), si_error = None\<rparr> \<longrightarrow>
        fst (login sb email password st) = Inr True \<and> isAuthenticated (snd (login sb email password st)))
   \<and> (signInWithPassword sb email password = Inr \<lparr>si_data = Some (u, sess), si_error = None\<rparr>
        \<and> all_strategies_fail sb u \<longrightarrow>
        isAuthenticated (snd (login sb email password st)) \<and> account (snd (login sb email password st)) = None)"
proof (intro conjI impI)
  show "\<exists>row. findAccountRow sb u = Inr row" by (rule findAccountRow_never_rejects)
next
  assume "all_strategies_fail sb u" then show "findAccountRow sb u = Inr JNull" by (rule findAccountRow_absent)
next
  assume g: "getSession sb = Inr (Some sess)"
  obtain row where r: "findAccountRow sb (session_user sess) = Inr row"
    using findAccountRow_never_rejects by blast
  from g r show "fst (checkSession sb st) = Inr ()" by (simp add: checkSession_def)
  from g r show "isAuthenticated (snd (checkSession sb st))" by (simp add: checkSession_def signedIn_def)
  from g r show "session (snd (checkSession sb st)) = Some sess" by (simp add: checkSession_def signedIn_def)
next
  assume a: "getSession sb = Inr (Some sess) \<and> all_strategies_fail sb (session_user sess)"
  then have r: "findAccountRow sb (session_user sess) = Inr JNull" by (simp add: findAccountRow_absent)
  from a r show "isAuthenticated (snd (checkSession sb st))" by (simp add: checkSession_def signedIn_def)
  from a r show "account (snd (checkSession sb st)) = None" by (simp add: checkSession_def signedIn_def)
next
  assume g: "signInWithPassword sb email password = Inr \<lparr>si_data = Some (u, sess), si_error = None\<rparr>"
  obtain row where r: "findAccountRow sb u = Inr row"
    using findAccountRow_never_rejects by blast
  from g r show "fst (login sb email password st) = Inr True" by (simp add: login_def)
  from g r show "isAuthenticated (snd (login sb email password st))" by (simp add: login_def signedIn_def)
next
  assume a: "signInWithPassword sb email password = Inr \<lparr>si_data = Some (u, sess), si_error = None\<rparr>
        \<and> all_strategies_fail sb u"
  then have r: "findAccountRow sb u = Inr JNull" by (simp add: findAccountRow_absent)
  from a r show "isAuthenticated (snd (login sb email password st))" by (simp add: login_def signedIn_def)
  from a r show "account (snd (login sb email password st)) = None" by (simp add: login_def signedIn_def)
qed

lemma unlinked_fails: "all_strategies_fail unlinked_provider example_user"
  by (simp add: all_strategies_fail_def unlinked_provider_def example_user_def no_match_def)

theorem authentication_independent_of_account_witness:
  "getSession unlinked_provider = Inr (Some example_session)
   \<and> all_strategies_fail unlinked_provider (session_user example_session)
   \<and> signInWithPassword unlinked_provider ''ada@example.org'' ''pw''
       = Inr \<lparr>si_data = Some (example_user, example_session), si_error = None\<rparr>
   \<and> all_strategies_fail unlinked_provider example_user
   \<and> findAccountRow unlinked_provider example_user = Inr JNull
   \<and> isAuthenticated (snd (checkSession unlinked_provider initial_AuthState))
   \<and> account (snd (checkSession unlinked_provider initial_AuthState)) = None
   \<and> fst (login unlinked_provider ''ada@example.org'' ''pw'' initial_AuthState) = Inr True
   \<and> isAuthenticated (snd (login unlinked_provider ''ada@example.org'' ''pw'' initial_AuthState))
   \<and> account (snd (login unlinked_provider ''ada@example.org'' ''pw'' initial_AuthState)) = None"
  using authentication_independent_of_account
          [of unlinked_provider example_user example_session initial_AuthState "''ada@example.org''" "''pw''"]
        unlinked_fails
  by (simp add: unlinked_provider_def example_session_def)

text \<open>
  Claim C9 (logout clears state unconditionally) does not hold when the provider call
  rejects: \<open>await supabase.auth.signOut()\<close> then throws, \<open>set\<close> is never reached, and
  the store still holds the session.
\<close>

theorem logout_rejected_counterexample:
  "isAuthenticated example_signedIn
   \<and> snd (logout failing_signOut_provider example_signedIn) = example_signedIn
   \<and> snd (logout failing_signOut_provider example_signedIn) \<noteq> initial_AuthState"
  by (simp add: logout_def failing_signOut_provider_def example_signedIn_def signedIn_def initial_AuthState_def)

text \<open>
  Claim C9, amended. Whenever the provider call returns, with or without an error
  value, \<open>logout\<close> clears session, user and account to \<open>null\<close> and \<open>isAuthenticated\<close>
  to false, the initial state. When the call throws, \<open>logout\<close> rejects with the same
  exception and leaves the store as it was.
\<close>

theorem logout_clears_when_provider_returns:
  "(signOut sb = Inr r \<longrightarrow> logout sb st = (Inr (), initial_AuthState))
   \<and> (signOut sb = Inl e \<longrightarrow> logout sb st = (Inl e, st))"
  by (simp add: logout_def signedOut_def initial_AuthState_def)

theorem logout_clears_when_provider_returns_witness:
  "signOut unlinked_provider = Inr None
   \<and> logout unlinked_provider example_signedIn = (Inr (), initial_AuthState)
   \<and> signOut failing_signOut_provider = Inl (Error ''Failed to fetch'')
   \<and> logout failing_signOut_provider example_signedIn = (Inl (Error ''Failed to fetch''), example_signedIn)"
  using logout_clears_when_provider_returns [of unlinked_provider None example_signedIn "Error ''Failed to fetch''"]
        logout_clears_when_provider_returns [of failing_signOut_provider None example_signedIn "Error ''Failed to fetch''"]
  by (simp add: unlinked_provider_def failing_signOut_provider_def)

subsection \<open>Evaluation and lookup lemmas\<close>

lemmas iso_defs = toISOString_def civil_from_days_def civil_of_doe_def civil_of_yoe_def civil_of_doy_def
  civil_of_mp_def pad2_def pad3_def pad4_def pad6_def dig_def

lemma uid_eq:
  "uid env w = (toString36 (clock env (clock_reads w)) @ ''-'' @ random36 env (random_reads w),
                w\<lparr>clock_reads := Suc (clock_reads w), random_reads := Suc (random_reads w)\<rparr>)"
  by (simp add: uid_def Date_now_def Math_random36_def)

lemma new_Date_eq:
  "new_Date_toISOString env w = (toISOString (clock env (clock_reads w)), w\<lparr>clock_reads := Suc (clock_reads w)\<rparr>)"
  by (simp add: new_Date_toISOString_def Date_now_def)

lemma iso_examples:
  "toISOString 0 = ''1970-01-01T00:00:00.000Z''"
  "toISOString 1000 = ''1970-01-01T00:00:01.000Z''"
  "toISOString 2000 = ''1970-01-01T00:00:02.000Z''"
  "toISOString 3000 = ''1970-01-01T00:00:03.000Z''"
  "toISOString 4000 = ''1970-01-01T00:00:04.000Z''"
  "toISOString 5000 = ''1970-01-01T00:00:05.000Z''"
  by (simp_all add: iso_defs)

lemma toString36_0: "toString36 0 = ''0''"
  by (simp add: toString36.simps digit36_def)

lemma getProp_total: "\<not> isNullish p \<Longrightarrow> getProp p k = Inr (getPropOpt p k)"
  by (cases p) (simp_all add: getPropOpt_def)

lemma getPropOpt_JObj: "getPropOpt (JObj kvs) k = (case map_of kvs k of None \<Rightarrow> JUndefined | Some v \<Rightarrow> v)"
  by (simp add: getPropOpt_def)

lemma map_of_assign:
  "distinct (map fst b) \<Longrightarrow> map_of (assign a b) = map_of a ++ map_of b"
proof (induction b arbitrary: a)
  case Nil
  then show ?case by simp
next
  case (Cons kv b)
  obtain k v where kv: "kv = (k, v)" by (cases kv)
  from Cons.prems kv have d: "distinct (map fst b)" and k: "k \<notin> fst ` set b" by auto
  from k have nk: "map_of b k = None" by (simp add: map_of_eq_None_iff)
  have "map_of (assign a (kv # b)) = map_of (AList.update k v a) ++ map_of b"
    using Cons.IH [OF d] kv by simp
  also have "\<dots> = (map_of a)(k \<mapsto> v) ++ map_of b" by (simp add: update_conv')
  also have "\<dots> = map_of a ++ map_of (kv # b)"
    using nk kv by (auto simp: map_add_def fun_eq_iff split: option.splits)
  finally show ?case .
qed

lemma map_of_spread: "map_of (spread a b) = map_of a ++ map_of b"
  by (simp add: spread_def map_of_assign distinct_clearjunk map_of_clearjunk)

lemma saveToStorage_stores:
  assumes "JSON_stringify env v = Some txt" and "storage_available w"
    and "storage_size (AList.update (storageKey u) txt (storage_items w)) \<le> storage_capacity w"
  shows "saveToStorage env u v w = w\<lparr>storage_items := AList.update (storageKey u) txt (storage_items w)\<rparr>"
  using assms by (simp add: saveToStorage_def saveToStorage_try_def setItem_def)

subsection \<open>Parsing what was serialized\<close>

text \<open>
  The parser reads back what the serializer wrote: on the text of any value other than
  \<open>undefined\<close> it returns the JSON form of that value, and the value itself when the
  value is plain JSON.
\<close>

lemma below_10: "(d::nat) < 10 \<Longrightarrow> d = 0 \<or> d = 1 \<or> d = 2 \<or> d = 3 \<or> d = 4 \<or> d = 5 \<or> d = 6 \<or> d = 7 \<or> d = 8 \<or> d = 9"
  by arith

lemma below_16: "(d::nat) < 16 \<Longrightarrow> d = 0 \<or> d = 1 \<or> d = 2 \<or> d = 3 \<or> d = 4 \<or> d = 5 \<or> d = 6 \<or> d = 7 \<or> d = 8 \<or> d = 9
   \<or> d = 10 \<or> d = 11 \<or> d = 12 \<or> d = 13 \<or> d = 14 \<or> d = 15"
  by arith

lemma of_char_dig: "(of_char (dig n) :: nat) = 48 + n mod 10"
proof -
  have "n mod 10 < 10" by simp
  from below_10 [OF this] show ?thesis
    by (elim disjE) (simp_all add: dig_def)
qed

lemma hex_val_hex_digit: "hex_val (hex_digit d) = Some (d mod 16)"
proof -
  have "d mod 16 < 16" by simp
  from below_16 [OF this] show ?thesis
    by (elim disjE) (simp_all add: hex_digit_def hex_val_def)
qed

lemma is_digit_dig: "is_digit (dig n)"
  by (simp add: is_digit_def of_char_dig)

lemma parse_chars_escape: "parse_chars (json_escape c @ s) = cons_char c (parse_chars s)"
proof -
  consider (quote) "c = CHR 0x22" | (backslash) "c = CHR 0x5C"
    | (short) "c = CHR 0x08 \<or> c = CHR 0x0C \<or> c = CHR 0x0A \<or> c = CHR 0x0D \<or> c = CHR 0x09"
    | (control) "c \<noteq> CHR 0x22" "c \<noteq> CHR 0x5C" "c \<noteq> CHR 0x08" "c \<noteq> CHR 0x0C" "c \<noteq> CHR 0x0A"
        "c \<noteq> CHR 0x0D" "c \<noteq> CHR 0x09" "(of_char c :: nat) < 32"
    | (plain) "c \<noteq> CHR 0x22" "c \<noteq> CHR 0x5C" "\<not> (of_char c :: nat) < 32"
    by (cases "(of_char c :: nat) < 32") auto
  then show ?thesis
  proof cases
    case quote
    then show ?thesis by (simp add: json_escape_def unescape_def)
  next
    case backslash
    then show ?thesis by (simp add: json_escape_def unescape_def)
  next
    case short
    then show ?thesis by (auto simp: json_escape_def unescape_def)
  next
    case control
    let ?n = "of_char c :: nat"
    have lo: "?n mod 16 < 16" by simp
    have hi: "?n div 16 < 2" using control(8) by simp
    have same: "char_of (16 * ((?n div 16) mod 16) + ?n mod 16) = c"
      using hi by simp
    have "hex4 CHR ''0'' CHR ''0'' (hex_digit (?n div 16)) (hex_digit ?n) = Some c"
      using same by (simp add: hex4_def hex_val_hex_digit) (simp add: hex_val_def)
    with control show ?thesis
      by (simp add: json_escape_def)
  next
    case plain
    then show ?thesis
      by (auto simp: json_escape_def)
  qed
qed

lemma parse_chars_quoted:
  "parse_chars (concat (map json_escape s) @ CHR 0x22 # rest) = Some (s, rest)"
  by (induction s) (simp_all add: parse_chars_escape cons_char_def)

lemma decimal_nonempty: "decimal n \<noteq> []"
  by (subst decimal.simps) simp

lemma parse_digits_decimal:
  "parse_digits acc (decimal n @ rest) = parse_digits (acc * 10 ^ length (decimal n) + n) rest"
proof (induction n arbitrary: acc rest rule: decimal.induct)
  case (1 n)
  show ?case
  proof (cases "n < 10")
    case True
    then show ?thesis
      by (subst (1 2) decimal.simps) (simp add: is_digit_dig of_char_dig mult.commute)
  next
    case False
    have split: "10 * (n div 10) + n mod 10 = n" by simp
    have "parse_digits acc (decimal n @ rest) = parse_digits acc (decimal (n div 10) @ dig n # rest)"
      using False by (subst decimal.simps) simp
    also have "\<dots> = parse_digits (acc * 10 ^ length (decimal (n div 10)) + n div 10) (dig n # rest)"
      using "1.IH" [OF False] by simp
    also have "\<dots> = parse_digits (10 * (acc * 10 ^ length (decimal (n div 10)) + n div 10) + n mod 10) rest"
      by (simp add: is_digit_dig of_char_dig)
    also have "10 * (acc * 10 ^ length (decimal (n div 10)) + n div 10) + n mod 10
        = acc * 10 ^ length (decimal n) + n"
    proof -
      have "length (decimal n) = Suc (length (decimal (n div 10)))"
        using False by (subst decimal.simps) simp
      then show ?thesis using split by (simp add: algebra_simps)
    qed
    finally show ?thesis .
  qed
qed

lemma decimal_starts_digit: "\<exists>c cs. decimal n = c # cs \<and> is_digit c"
proof (induction n rule: decimal.induct)
  case (1 n)
  show ?case
  proof (cases "n < 10")
    case True
    then show ?thesis by (subst decimal.simps) (simp add: is_digit_dig)
  next
    case False
    with "1.IH" obtain c cs where "decimal (n div 10) = c # cs" "is_digit c" by blast
    with False show ?thesis by (subst decimal.simps) simp
  qed
qed

lemma decimal_no_leading_zero: "0 < n \<Longrightarrow> hd (decimal n) \<noteq> CHR ''0''"
proof (induction n rule: decimal.induct)
  case (1 n)
  show ?case
  proof (cases "n < 10")
    case True
    have "(of_char (dig n) :: nat) \<noteq> of_char CHR ''0''"
      using True "1.prems" by (simp add: of_char_dig)
    then have "dig n \<noteq> CHR ''0''" by auto
    with True show ?thesis by (subst decimal.simps) simp
  next
    case False
    then have "0 < n div 10" by simp
    with "1.IH" False have "hd (decimal (n div 10)) \<noteq> CHR ''0''" by simp
    with False show ?thesis
      by (subst decimal.simps) (simp add: decimal_nonempty)
  qed
qed

lemma decimal_0: "decimal 0 = ''0''"
  by (subst decimal.simps) (simp add: dig_def)

lemma parse_digits_stop: "rest = [] \<or> \<not> is_digit (hd rest) \<Longrightarrow> parse_digits acc rest = (acc, rest)"
  by (cases rest) auto

lemma parse_nat_decimal:
  assumes "rest = [] \<or> \<not> is_digit (hd rest)"
  shows "parse_nat (decimal n @ rest) = (n, rest)"
proof (cases "n = 0")
  case True
  then show ?thesis by (simp add: decimal_0 parse_nat_def)
next
  case False
  obtain c cs where d: "decimal n = c # cs" using decimal_starts_digit by blast
  with decimal_no_leading_zero [of n] False have "c \<noteq> CHR ''0''" by simp
  then have "parse_nat (decimal n @ rest) = parse_digits 0 (decimal n @ rest)"
    by (simp add: parse_nat_def d)
  also have "\<dots> = (n, rest)"
    by (simp add: parse_digits_decimal parse_digits_stop [OF assms])
  finally show ?thesis .
qed

lemma skip_ws_start: "\<not> is_ws c \<Longrightarrow> skip_ws (c # r) = c # r"
  by (simp add: skip_ws_def)

lemma digit_not_ws: "is_digit c \<Longrightarrow> \<not> is_ws c"
  by (auto simp: is_digit_def is_ws_def)

lemma digit_not_punct:
  "is_digit c \<Longrightarrow> c \<noteq> CHR ''n'' \<and> c \<noteq> CHR ''t'' \<and> c \<noteq> CHR ''f'' \<and> c \<noteq> CHR 0x22 \<and> c \<noteq> CHR ''[''
     \<and> c \<noteq> CHR '']'' \<and> c \<noteq> CHR ''{'' \<and> c \<noteq> CHR ''}'' \<and> c \<noteq> CHR ''-'' \<and> c \<noteq> CHR '',''"
  by (auto simp: is_digit_def)

lemma render_starts:
  "is_json v \<Longrightarrow> \<exists>c cs. render v = c # cs \<and> \<not> is_ws c \<and> c \<noteq> CHR '']'' \<and> c \<noteq> CHR ''}''"
proof (cases v)
  case (JNum k)
  obtain c cs where d: "decimal (nat k) = c # cs" "is_digit c" using decimal_starts_digit by blast
  with JNum digit_not_ws digit_not_punct show ?thesis by (auto simp: is_ws_def)
qed (auto simp: is_ws_def json_quote_def)

lemma parse_number:
  assumes "rest = [] \<or> \<not> is_digit (hd rest)"
  shows "parse_value (Suc m) (render (JNum k) @ rest) = Some (JNum k, rest)"
proof (cases "k < 0")
  case True
  let ?d = "decimal (nat (- k))"
  obtain c cs where d: "?d = c # cs" "is_digit c" using decimal_starts_digit by blast
  have "parse_nat (c # cs @ rest) = (nat (- k), rest)"
    using parse_nat_decimal [OF assms, of "nat (- k)"] d by simp
  with True d show ?thesis
    by (simp add: skip_ws_start is_ws_def)
next
  case False
  let ?d = "decimal (nat k)"
  obtain c cs where d: "?d = c # cs" "is_digit c" using decimal_starts_digit by blast
  have "parse_nat (c # cs @ rest) = (nat k, rest)"
    using parse_nat_decimal [OF assms, of "nat k"] d by simp
  with False d digit_not_punct [OF d(2)] digit_not_ws [OF d(2)] show ?thesis
    by (simp add: skip_ws_start)
qed

lemma parse_render:
  "is_json v \<Longrightarrow> length (render v) \<le> n \<Longrightarrow> rest = [] \<or> \<not> is_digit (hd rest)
     \<Longrightarrow> parse_value n (render v @ rest) = Some (v, rest)"
  "is_json_elems xs \<Longrightarrow> xs \<noteq> [] \<Longrightarrow> length (render_elems xs) \<le> n
     \<Longrightarrow> parse_elems n (render_elems xs @ rest) = Some (xs, rest)"
  "is_json_members kvs \<Longrightarrow> kvs \<noteq> [] \<Longrightarrow> length (render_members kvs) \<le> n
     \<Longrightarrow> parse_members n (render_members kvs @ rest) = Some (kvs, rest)"
proof (induction v and xs and kvs arbitrary: n rest and n rest and n rest
       rule: render_render_elems_render_members.induct)
  case 1
  then show ?case by simp
next
  case 2
  then obtain m where "n = Suc m" by (cases n) auto
  then show ?case by (simp add: skip_ws_start is_ws_def)
next
  case (3 b)
  then obtain m where "n = Suc m" by (cases n; cases b) auto
  then show ?case by (cases b) (simp_all add: skip_ws_start is_ws_def)
next
  case (4 k)
  have "render (JNum k) \<noteq> []" by (simp add: decimal_nonempty)
  with 4 obtain m where "n = Suc m" by (cases n) auto
  with parse_number [OF "4.prems"(3)] show ?case by simp
next
  case (5 s)
  then obtain m where "n = Suc m" by (cases n) (auto simp: json_quote_def)
  then show ?case
    by (simp add: json_quote_def skip_ws_start is_ws_def parse_chars_quoted)
next
  case (6 xs)
  then obtain m where n: "n = Suc m" and len: "length (render_elems xs) \<le> m" by (cases n) auto
  show ?case
  proof (cases xs)
    case Nil
    with n show ?thesis by (simp add: skip_ws_start is_ws_def)
  next
    case (Cons x xs')
    with "6.prems" have "is_json x" by simp
    from render_starts [OF this] obtain c cs where
      c: "render x = c # cs" "\<not> is_ws c" "c \<noteq> CHR '']''" by blast
    then obtain r where r: "render_elems xs @ rest = c # r" by (simp add: Cons)
    have "parse_elems m (render_elems xs @ rest) = Some (xs, rest)"
      using "6.IH" [of m rest] "6.prems" len Cons by simp
    with n r c show ?thesis
      by (simp add: skip_ws_start is_ws_def)
  qed
next
  case (7 kvs)
  then obtain m where n: "n = Suc m" and len: "length (render_members kvs) \<le> m" by (cases n) auto
  show ?case
  proof (cases kvs)
    case Nil
    with n show ?thesis by (simp add: skip_ws_start is_ws_def)
  next
    case (Cons kv kvs')
    then obtain r where r: "render_members kvs @ rest = CHR 0x22 # r"
      by (cases kv) (simp add: json_quote_def)
    have "parse_members m (render_members kvs @ rest) = Some (kvs, rest)"
      using "7.IH" [of m rest] "7.prems" len Cons by simp
    with n r show ?thesis
      by (simp add: skip_ws_start is_ws_def)
  qed
next
  case 8
  then show ?case by simp
next
  case (9 x xs)
  let ?tail = "(if xs = [] then '']'' else CHR '','' # render_elems xs) @ rest"
  from "9.prems" obtain m where n: "n = Suc m" by (cases n) (auto split: if_splits)
  have lx: "length (render x) \<le> m" using "9.prems" n by (simp split: if_splits)
  have sep: "?tail = [] \<or> \<not> is_digit (hd ?tail)" by (simp add: is_digit_def)
  have first: "parse_value m (render x @ ?tail) = Some (x, ?tail)"
    using "9.IH"(1) [OF _ lx sep] "9.prems" by simp
  show ?case
  proof (cases "xs = []")
    case True
    with first n show ?thesis by (simp add: skip_ws_start is_ws_def)
  next
    case False
    have "length (render_elems xs) \<le> m" using "9.prems" n False by simp
    with "9.IH"(2) [OF False _ False, of m rest] "9.prems"
    have "parse_elems m (render_elems xs @ rest) = Some (xs, rest)" by simp
    with first n False show ?thesis by (simp add: skip_ws_start is_ws_def)
  qed
next
  case 10
  then show ?case by simp
next
  case (11 k v kvs)
  let ?tail = "(if kvs = [] then ''}'' else CHR '','' # render_members kvs) @ rest"
  from "11.prems" obtain m where n: "n = Suc m" by (cases n) (auto split: if_splits)
  have lv: "length (render v) \<le> m" using "11.prems" n by (simp split: if_splits)
  have sep: "?tail = [] \<or> \<not> is_digit (hd ?tail)" by (simp add: is_digit_def)
  have val: "parse_value m (render v @ ?tail) = Some (v, ?tail)"
    using "11.IH"(1) [OF _ lv sep] "11.prems" by simp
  have key: "parse_chars (concat (map json_escape k) @ CHR 0x22 # CHR '':'' # render v @ ?tail)
      = Some (k, CHR '':'' # render v @ ?tail)"
    by (rule parse_chars_quoted)
  show ?case
  proof (cases "kvs = []")
    case True
    with val key n show ?thesis
      by (simp add: json_quote_def skip_ws_start is_ws_def)
  next
    case False
    have "length (render_members kvs) \<le> m" using "11.prems" n False by simp
    with "11.IH"(2) [OF False _ False, of m rest] "11.prems"
    have "parse_members m (render_members kvs @ rest) = Some (kvs, rest)" by simp
    moreover have "add_member k v kvs = (k, v) # kvs"
      using "11.prems" by (simp add: add_member_def)
    ultimately show ?thesis
      using val key n False by (simp add: json_quote_def skip_ws_start is_ws_def)
  qed
qed

lemma is_json_as_json:
  "v \<noteq> JUndefined \<Longrightarrow> is_json (as_json v)"
  "is_json_elems (as_json_elems xs)"
  "is_json_members (as_json_members seen kvs) \<and> (\<forall>k\<in>set seen. map_of (as_json_members seen kvs) k = None)"
proof (induction v and xs and seen kvs rule: as_json_as_json_elems_as_json_members.induct)
  case (7 seen k v kvs)
  show ?case
  proof (cases "k \<in> set seen \<or> v = JUndefined")
    case True
    with "7.IH"(1) show ?thesis by simp
  next
    case False
    with "7.IH"(2,3) show ?thesis by auto
  qed
qed simp_all

lemma map_of_as_json_members:
  "map_of (as_json_members seen kvs) k =
     (if k \<in> set seen then None
      else (case map_of kvs k of None \<Rightarrow> None
            | Some v \<Rightarrow> if v = JUndefined then None else Some (as_json v)))"
  by (induction kvs arbitrary: seen) (auto split: option.splits)

lemma json_parse_json_text: "v \<noteq> JUndefined \<Longrightarrow> json_parse (json_text v) = Some (as_json v)"
  using parse_render(1) [of "as_json v" "2 * length (render (as_json v)) + 2" "[]"]
  by (simp add: json_parse_def json_text_def is_json_as_json skip_ws_def)

lemma is_json_defined: "is_json v \<Longrightarrow> v \<noteq> JUndefined"
  by auto

lemma as_json_fixed:
  "is_json v \<Longrightarrow> as_json v = v"
  "is_json_elems xs \<Longrightarrow> as_json_elems xs = xs"
  "is_json_members kvs \<Longrightarrow> set seen \<inter> fst ` set kvs = {} \<Longrightarrow> as_json_members seen kvs = kvs"
proof (induction v and xs and seen kvs rule: as_json_as_json_elems_as_json_members.induct)
  case (7 seen k v kvs)
  from "7.prems" have v: "is_json v" and k: "map_of kvs k = None" and kvs: "is_json_members kvs"
    and out: "k \<notin> set seen" and dis: "set seen \<inter> fst ` set kvs = {}"
    by auto
  from k have "k \<notin> fst ` set kvs" by (simp add: map_of_eq_None_iff)
  with dis have dis': "set (k # seen) \<inter> fst ` set kvs = {}" by auto
  from v have d: "v \<noteq> JUndefined" by (rule is_json_defined)
  from out d "7.IH"(2) [OF _ v] "7.IH"(3) [OF _ kvs dis'] show ?case by simp
qed (simp_all add: is_json_defined)

lemma json_parse_json_text_fixed: "is_json v \<Longrightarrow> json_parse (json_text v) = Some v"
  using json_parse_json_text [of v] by (simp add: as_json_fixed(1) is_json_defined)

subsection \<open>Round trip through storage\<close>

lemma load_after_store:
  assumes "truthy S" and "getProp S ''profiles'' = Inr (JArr ps)"
    and "txt \<noteq> []" and "JSON_parse env txt = Some S"
    and "storage_available w" and "map_of (storage_items w) (storageKey A) = Some txt"
  shows "fst (loadFromStorage env A w) = Some S"
  using assms by (simp add: loadFromStorage_def loadFromStorage_try_def getItem_def)

lemma as_json_scalar:
  "isString v \<Longrightarrow> as_json v = v"
  "isBoolean v \<Longrightarrow> as_json v = v"
  "isRoleType v \<Longrightarrow> as_json v = v"
  "isStringOrNull v \<Longrightarrow> as_json v = v"
  by (cases v; auto simp: isRoleType_def isStringOrNull_def)+

lemma getPropOpt_as_json: "getPropOpt (as_json (JObj kvs)) k = as_json (getPropOpt (JObj kvs) k)"
  by (simp add: getPropOpt_JObj map_of_as_json_members split: option.splits)

lemma required_kept:
  "required isString kvs k \<Longrightarrow> as_json (getPropOpt (JObj kvs) k) = getPropOpt (JObj kvs) k"
  "required isRoleType kvs k \<Longrightarrow> as_json (getPropOpt (JObj kvs) k) = getPropOpt (JObj kvs) k"
  by (auto simp: required_def getPropOpt_JObj as_json_scalar split: option.splits)

lemma optional_kept:
  "optional isString kvs k \<Longrightarrow> as_json (getPropOpt (JObj kvs) k) = getPropOpt (JObj kvs) k"
  "optional isBoolean kvs k \<Longrightarrow> as_json (getPropOpt (JObj kvs) k) = getPropOpt (JObj kvs) k"
  by (auto simp: optional_def getPropOpt_JObj as_json_scalar split: option.splits)

lemma same_profile_as_json:
  assumes "isMemberProfile p"
  shows "same_profile (as_json p) p"
proof (cases p)
  case (JObj kvs)
  with assms have f: "required isString kvs ''id''" "required isString kvs ''accountId''"
    "required isRoleType kvs ''roleType''" "required isString kvs ''firstName''"
    "required isString kvs ''lastName''" "optional isString kvs ''phoneNumber''"
    "optional isString kvs ''profileEmail''" "optional isString kvs ''dobMonth''"
    "optional isString kvs ''dobDay''" "optional isString kvs ''dobYear''"
    "optional isString kvs ''licenseNumber''" "optional isString kvs ''nabpEprofileId''"
    "optional isBoolean kvs ''isActive''" "required isString kvs ''createdAt''"
    "optional isString kvs ''updatedAt''"
    by simp_all
  from f show ?thesis
    by (simp add: JObj same_profile_def MemberProfile_fields_def getPropOpt_as_json
          required_kept optional_kept del: as_json.simps)
qed (use assms in simp_all)

lemma same_profiles_as_json:
  "list_all isMemberProfile ps \<Longrightarrow> list_all2 same_profile (as_json_elems ps) ps"
proof (induction ps)
  case Nil
  then show ?case by simp
next
  case (Cons p ps)
  then have "isMemberProfile p" by simp
  then have "p \<noteq> JUndefined" by auto
  with Cons same_profile_as_json [of p] show ?case by simp
qed

lemma isPersistedProfiles_parts:
  assumes "isPersistedProfiles S"
  obtains kvs ps where "S = JObj kvs" "map_of kvs ''profiles'' = Some (JArr ps)" "list_all isMemberProfile ps"
    "isStringOrNull (getPropOpt S ''currentProfileId'')" "isString (getPropOpt S ''updatedAt'')"
proof (cases S)
  case (JObj kvs)
  with assms obtain v where v: "map_of kvs ''profiles'' = Some v" "isArray v" "list_all isMemberProfile (arrayItems v)"
    by (auto simp: required_def split: option.splits)
  then obtain ps where "v = JArr ps" by (cases v) auto
  with v JObj assms that show ?thesis
    by (auto simp: required_def getPropOpt_JObj split: option.splits)
qed (use assms in simp_all)

lemma same_snapshot_as_json:
  assumes "isPersistedProfiles S"
  shows "same_snapshot (as_json S) S"
proof -
  from assms obtain kvs ps where S: "S = JObj kvs" and ps: "map_of kvs ''profiles'' = Some (JArr ps)"
    and all: "list_all isMemberProfile ps"
    and cur: "isStringOrNull (getPropOpt S ''currentProfileId'')" and upd: "isString (getPropOpt S ''updatedAt'')"
    by (rule isPersistedProfiles_parts)
  have "getPropOpt (as_json S) ''profiles'' = JArr (as_json_elems ps)"
    unfolding S getPropOpt_as_json using ps by (simp add: getPropOpt_JObj)
  moreover have "getPropOpt S ''profiles'' = JArr ps"
    using ps by (simp add: S getPropOpt_JObj)
  moreover have "getPropOpt (as_json S) ''currentProfileId'' = getPropOpt S ''currentProfileId''"
    using cur unfolding S getPropOpt_as_json by (simp add: as_json_scalar)
  moreover have "getPropOpt (as_json S) ''updatedAt'' = getPropOpt S ''updatedAt''"
    using upd unfolding S getPropOpt_as_json by (simp add: as_json_scalar)
  ultimately show ?thesis
    using same_profiles_as_json [OF all] by (simp add: same_snapshot_def)
qed

lemma json_text_object: "json_text (JObj kvs) \<noteq> []"
  by (simp add: json_text_def)

text \<open>
  Claim C6 (round-trip persistence). \<open>JSON.stringify\<close> and \<open>JSON.parse\<close> are the codec
  of section JSON. For every value \<open>S\<close> of type \<open>PersistedProfiles\<close> and every account
  id \<open>A\<close>, once \<open>saveToStorage(A, S)\<close> has stored its text, \<open>loadFromStorage(A)\<close> on the
  resulting storage returns the JSON form of \<open>S\<close>, and that snapshot equals \<open>S\<close> field
  for field: as many profiles, in the same order, every declared property of every
  profile reading the same, the same \<open>currentProfileId\<close> and the same \<open>updatedAt\<close>. The
  JSON form differs from \<open>S\<close> only in what JSON cannot hold: a property written with
  the value \<open>undefined\<close> comes back absent, and reads \<open>undefined\<close> as before; a snapshot
  that is plain JSON comes back as it was (lemma \<open>as_json_fixed\<close>).
\<close>

theorem save_load_roundtrip:
  assumes "isPersistedProfiles S"
    and "fst (saveToStorage_try (json_platform clk rnd) A S w) = Inr ()"
  shows "fst (loadFromStorage (json_platform clk rnd) A (saveToStorage (json_platform clk rnd) A S w))
           = Some (as_json S)
         \<and> same_snapshot (as_json S) S"
proof -
  let ?env = "json_platform clk rnd"
  from assms(1) obtain kvs ps where S: "S = JObj kvs" and ps: "map_of kvs ''profiles'' = Some (JArr ps)"
    by (rule isPersistedProfiles_parts)
  have str: "JSON_stringify ?env S = Some (json_text S)"
    by (simp add: json_platform_def json_stringify_def S)
  from str assms(2) have ok: "fst (setItem (storageKey A) (json_text S) w) = Inr ()"
    by (simp add: saveToStorage_try_def)
  then have av: "storage_available w"
    and w': "saveToStorage ?env A S w = w\<lparr>storage_items := AList.update (storageKey A) (json_text S) (storage_items w)\<rparr>"
    using str by (auto simp: saveToStorage_def saveToStorage_try_def setItem_def Let_def split: if_splits)
  have ne: "json_text S \<noteq> []" by (simp add: S json_text_object)
  have parsed: "JSON_parse ?env (json_text S) = Some (as_json S)"
    by (simp add: json_platform_def json_parse_json_text S)
  have t: "truthy (as_json S)" by (simp add: S)
  have g: "getProp (as_json S) ''profiles'' = Inr (JArr (as_json_elems ps))"
    using ps by (simp add: S map_of_as_json_members)
  have "fst (loadFromStorage ?env A (saveToStorage ?env A S w)) = Some (as_json S)"
    unfolding w' by (rule load_after_store [OF t g ne parsed]) (simp_all add: av update_conv')
  with same_snapshot_as_json [OF assms(1)] show ?thesis by simp
qed

lemma written_snapshot_text: "length (json_text written_snapshot) \<le> 500"
  by code_simp

lemma written_snapshot_read: "as_json written_snapshot = read_snapshot"
  by (simp add: written_snapshot_def written_profile_def read_snapshot_def PersistedProfiles_def)

theorem save_load_roundtrip_witness:
  "isPersistedProfiles written_snapshot
   \<and> fst (saveToStorage_try example_env ''acct-1'' written_snapshot (example_world [])) = Inr ()
   \<and> fst (loadFromStorage example_env ''acct-1''
            (saveToStorage example_env ''acct-1'' written_snapshot (example_world []))) = Some read_snapshot
   \<and> same_snapshot read_snapshot written_snapshot"
proof -
  have v: "isPersistedProfiles written_snapshot"
    by (simp add: written_snapshot_def written_profile_def PersistedProfiles_def required_def optional_def
          isRoleType_def isStringOrNull_def)
  have ok: "fst (saveToStorage_try (json_platform (\<lambda>n. 1000 * n) (\<lambda>n. ''k3x9q2'')) ''acct-1'' written_snapshot
             (example_world [])) = Inr ()"
    using written_snapshot_text
    by (simp add: saveToStorage_try_def json_platform_def json_stringify_def written_snapshot_def
          PersistedProfiles_def setItem_def example_world_def storage_size_def storageKey_def)
  from save_load_roundtrip [OF v ok] v ok show ?thesis
    by (simp add: example_env_def written_snapshot_read)
qed

subsection \<open>Selection after a removal\<close>

lemma removeProfile_filter_total:
  "\<forall>p\<in>set ps. \<not> isNullish p \<Longrightarrow>
   removeProfile_filter i ps = Inr (filter (\<lambda>p. getPropOpt p ''id'' \<noteq> JStr i) ps)"
  by (induction ps) (simp_all add: getProp_total)

lemma firstId_cases:
  "firstId [] = JNull"
  "getPropOpt p ''id'' = JStr j \<Longrightarrow> firstId (p # ps) = JStr j"
  by (simp_all add: nullish_or_def)

lemma stale_selection_eq:
  "stale_selection = \<lparr>profiles = [example_profile ''p1'' ''acct-1''], currentProfileId = JStr ''ghost'',
      loadedForUserId = Some ''acct-1''\<rparr>"
  by (simp add: stale_selection_def setCurrentProfile_def example_loaded_def ofStringOrNull_def
           new_Date_toISOString_def Date_now_def split: prod.splits)

text \<open>
  Claim C3 (selection fallback on removal) fails where it says that the selection is
  unchanged when no profile matches the id: \<open>removeProfile\<close> tests
  \<open>currentProfileId === id\<close>, not whether a profile was removed. After
  \<open>setCurrentProfile('ghost')\<close>, which does not check its argument against the
  collection, \<open>removeProfile(accountId, 'ghost')\<close> removes nothing and moves the
  selection to the first profile.
\<close>

theorem removeProfile_stale_selection_counterexample:
  "profiles stale_selection = [example_profile ''p1'' ''acct-1'']
   \<and> getPropOpt (example_profile ''p1'' ''acct-1'') ''id'' = JStr ''p1''
   \<and> currentProfileId stale_selection = JStr ''ghost''
   \<and> profiles (fst (snd (removeProfile example_env ''acct-1'' ''ghost'' (stale_selection, example_world []))))
       = profiles stale_selection
   \<and> currentProfileId (fst (snd (removeProfile example_env ''acct-1'' ''ghost'' (stale_selection, example_world []))))
       = JStr ''p1''
   \<and> currentProfileId (fst (snd (removeProfile example_env ''acct-1'' ''ghost'' (stale_selection, example_world []))))
       \<noteq> currentProfileId stale_selection"
  by (simp add: stale_selection_eq removeProfile_def example_profile_def getPropOpt_def nullish_or_def
           split: prod.splits)

text \<open>
  Claim C3, amended. On a collection without \<open>null\<close> elements, \<open>removeProfile\<close>
  removes every profile whose \<open>id\<close> equals the given id. If \<open>currentProfileId\<close>
  equals that id, whether or not a profile carried it, the selection becomes
  \<open>next[0]?.id ?? null\<close>: the id of the first remaining profile in collection order,
  or \<open>null\<close> if none remains. Otherwise the selection is unchanged.
\<close>

theorem removeProfile_selection:
  assumes "\<forall>p\<in>set (profiles s). \<not> isNullish p"
  shows "fst (removeProfile env userId i (s, w)) = Inr ()
    \<and> profiles (fst (snd (removeProfile env userId i (s, w))))
        = filter (\<lambda>p. getPropOpt p ''id'' \<noteq> JStr i) (profiles s)
    \<and> (currentProfileId s = JStr i \<longrightarrow>
         currentProfileId (fst (snd (removeProfile env userId i (s, w))))
           = firstId (filter (\<lambda>p. getPropOpt p ''id'' \<noteq> JStr i) (profiles s)))
    \<and> (currentProfileId s \<noteq> JStr i \<longrightarrow>
         currentProfileId (fst (snd (removeProfile env userId i (s, w)))) = currentProfileId s)"
  using removeProfile_filter_total [OF assms, of i]
  by (simp add: removeProfile_def split: prod.splits)

theorem removeProfile_selection_witness:
  "list_all (\<lambda>p. \<not> isNullish p) (profiles three_profiles)
   \<and> currentProfileId three_profiles = JStr ''p2''
   \<and> fst (removeProfile example_env ''acct-1'' ''p2'' (three_profiles, example_world [])) = Inr ()
   \<and> profiles (fst (snd (removeProfile example_env ''acct-1'' ''p2'' (three_profiles, example_world []))))
       = [example_profile ''p1'' ''acct-1'', example_profile ''p3'' ''acct-1'']
   \<and> currentProfileId (fst (snd (removeProfile example_env ''acct-1'' ''p2'' (three_profiles, example_world []))))
       = JStr ''p1''
   \<and> list_all (\<lambda>p. \<not> isNullish p) (profiles example_loaded)
   \<and> currentProfileId example_loaded = JStr ''p1''
   \<and> profiles (fst (snd (removeProfile example_env ''acct-1'' ''p1'' (example_loaded, example_world [])))) = []
   \<and> currentProfileId (fst (snd (removeProfile example_env ''acct-1'' ''p1'' (example_loaded, example_world []))))
       = JNull"
  using removeProfile_selection [of three_profiles example_env "''acct-1''" "''p2''" "example_world []"]
        removeProfile_selection [of example_loaded example_env "''acct-1''" "''p1''" "example_world []"]
  by (simp add: three_profiles_def example_loaded_def example_profile_def getPropOpt_def nullish_or_def)

subsection \<open>Selection after additions\<close>

lemma newProfile_id:
  "map_of data ''id'' = None \<Longrightarrow> getPropOpt (newProfile i data c u) ''id'' = JStr i"
  by (simp add: newProfile_def getPropOpt_JObj update_conv' map_of_spread map_add_def)

lemma addProfile_parts:
  "fst (snd (addProfile env u data (s, w))) = addProfile_set u (fst (addProfile env u data (s, w))) s"
  by (simp add: addProfile_def split: prod.splits)

lemma addProfile_returns:
  "fst (addProfile env u data (s, w)) =
     newProfile (fst (uid env w)) data
       (toISOString (clock env (Suc (clock_reads w))))
       (toISOString (clock env (Suc (Suc (clock_reads w)))))"
  by (simp add: addProfile_def uid_def new_Date_toISOString_def Date_now_def Math_random36_def
           split: prod.splits)

lemma addProfile_keeps_selection:
  "\<not> isNullish (currentProfileId s) \<Longrightarrow>
   currentProfileId (fst (snd (addProfile env u data (s, w)))) = currentProfileId s"
  by (simp add: addProfile_parts addProfile_set_def nullish_or_def)

lemma addProfiles_keep_selection:
  "\<not> isNullish (currentProfileId (fst sw)) \<Longrightarrow>
   currentProfileId (fst (addProfiles env calls sw)) = currentProfileId (fst sw)"
proof (induction calls arbitrary: sw)
  case Nil
  then show ?case by simp
next
  case (Cons call calls)
  obtain u data where call: "call = (u, data)" by (cases call)
  obtain s w where sw: "sw = (s, w)" by (cases sw)
  let ?next = "snd (addProfile env u data (s, w))"
  from Cons.prems sw have keep: "currentProfileId (fst ?next) = currentProfileId s"
    by (simp add: addProfile_keeps_selection)
  with Cons.prems sw have "\<not> isNullish (currentProfileId (fst ?next))" by simp
  from Cons.IH [OF this] keep show ?case by (simp add: call sw)
qed

text \<open>
  Claim C4 (the first profile becomes the selection). Start from a store whose
  \<open>currentProfileId\<close> is \<open>null\<close> and add a profile whose data carries no \<open>id\<close> (its
  type omits it). Then \<open>currentProfileId\<close> is the id of the profile just created, the
  string that \<open>uid\<close> generated, and it is still that after any further sequence of
  \<open>addProfile\<close> calls.
\<close>

theorem first_profile_is_default:
  assumes "currentProfileId s = JNull" and "map_of data ''id'' = None"
  shows "currentProfileId (fst (snd (addProfile env userId data (s, w))))
           = getPropOpt (fst (addProfile env userId data (s, w))) ''id''
     \<and> getPropOpt (fst (addProfile env userId data (s, w))) ''id'' = JStr (fst (uid env w))
     \<and> currentProfileId (fst (addProfiles env calls (snd (addProfile env userId data (s, w)))))
           = currentProfileId (fst (snd (addProfile env userId data (s, w))))"
proof -
  let ?p = "fst (addProfile env userId data (s, w))"
  let ?sw = "snd (addProfile env userId data (s, w))"
  have id: "getPropOpt ?p ''id'' = JStr (fst (uid env w))"
    using assms(2) by (simp add: addProfile_returns newProfile_id)
  have cur: "currentProfileId (fst ?sw) = getPropOpt ?p ''id''"
    using assms(1) by (simp add: addProfile_parts addProfile_set_def nullish_or_def)
  from cur id have "\<not> isNullish (currentProfileId (fst ?sw))" by simp
  from addProfiles_keep_selection [OF this] cur id show ?thesis by simp
qed

theorem first_profile_is_default_witness:
  "currentProfileId initial_ProfilesState = JNull
   \<and> map_of scenario_data ''id'' = None
   \<and> currentProfileId (fst (snd (addProfile example_env ''acct-1'' scenario_data
          (initial_ProfilesState, example_world [])))) = JStr ''0-k3x9q2''
   \<and> currentProfileId (fst (addProfiles example_env [(''acct-1'', scenario_data), (''acct-1'', scenario_data)]
          (snd (addProfile example_env ''acct-1'' scenario_data (initial_ProfilesState, example_world [])))))
       = JStr ''0-k3x9q2''"
  using first_profile_is_default [of initial_ProfilesState scenario_data example_env "''acct-1''"
          "example_world []" "[(''acct-1'', scenario_data), (''acct-1'', scenario_data)]"]
  by (simp add: initial_ProfilesState_def scenario_data_def uid_eq example_env_def json_platform_def
        example_world_def toString36_0)

subsection \<open>The account an addition is filed under\<close>

lemma addProfile_world:
  "snd (snd (addProfile env u data (s, w))) =
     saveToStorage env u
       (PersistedProfiles (profiles s @ [fst (addProfile env u data (s, w))])
          (currentProfileId (fst (snd (addProfile env u data (s, w)))))
          (toISOString (clock env (clock_reads w + 3))))
       (w\<lparr>random_reads := Suc (random_reads w), clock_reads := clock_reads w + 4\<rparr>)"
  by (simp add: addProfile_def addProfile_set_def uid_eq new_Date_eq eval_nat_numeral)

text \<open>
  Claim C10 (\<open>addProfile\<close> rebinds the collection to the caller's account id). Whatever
  account was loaded before, if any, after \<open>addProfile(accountId, data)\<close> the store has
  \<open>loadedForUserId = accountId\<close> and its collection is the previous one followed by the
  new profile. Whenever the storage layer accepts the write, the storage afterwards is
  the previous storage with the key \<open>profiles:\<close> followed by the account id set to the
  text of the object whose \<open>profiles\<close> is that whole collection, whose
  \<open>currentProfileId\<close> is the previous selection, or the new profile's id when there was
  none, and whose \<open>updatedAt\<close> is the third clock reading after the id was drawn; no
  other key is written.
\<close>

theorem addProfile_rebinds_account:
  "loadedForUserId (fst (snd (addProfile env userId data (s, w)))) = Some userId
   \<and> profiles (fst (snd (addProfile env userId data (s, w)))) = profiles s @ [fst (addProfile env userId data (s, w))]
   \<and> (JSON_stringify env
         (JObj [(''profiles'', JArr (profiles s @ [fst (addProfile env userId data (s, w))])),
                (''currentProfileId'',
                   if currentProfileId s = JNull \<or> currentProfileId s = JUndefined
                   then getPropOpt (fst (addProfile env userId data (s, w))) ''id''
                   else currentProfileId s),
                (''updatedAt'', JStr (toISOString (clock env (clock_reads w + 3))))]) = Some str
       \<and> storage_available w
       \<and> storage_size (AList.update (''profiles:'' @ userId) str (storage_items w)) \<le> storage_capacity w
       \<longrightarrow> storage_items (snd (snd (addProfile env userId data (s, w))))
             = AList.update (''profiles:'' @ userId) str (storage_items w))"
proof (intro conjI impI)
  show "loadedForUserId (fst (snd (addProfile env userId data (s, w)))) = Some userId"
    by (simp add: addProfile_def addProfile_set_def uid_eq new_Date_eq)
  show "profiles (fst (snd (addProfile env userId data (s, w)))) = profiles s @ [fst (addProfile env userId data (s, w))]"
    by (simp add: addProfile_def addProfile_set_def uid_eq new_Date_eq)
next
  let ?w4 = "w\<lparr>random_reads := Suc (random_reads w), clock_reads := clock_reads w + 4\<rparr>"
  let ?p = "fst (addProfile env userId data (s, w))"
  let ?payload = "JObj [(''profiles'', JArr (profiles s @ [?p])),
                (''currentProfileId'',
                   if currentProfileId s = JNull \<or> currentProfileId s = JUndefined
                   then getPropOpt ?p ''id'' else currentProfileId s),
                (''updatedAt'', JStr (toISOString (clock env (clock_reads w + 3))))]"
  assume a: "JSON_stringify env ?payload = Some str
       \<and> storage_available w
       \<and> storage_size (AList.update (''profiles:'' @ userId) str (storage_items w)) \<le> storage_capacity w"
  have cur: "currentProfileId (fst (snd (addProfile env userId data (s, w))))
      = (if currentProfileId s = JNull \<or> currentProfileId s = JUndefined
         then getPropOpt ?p ''id'' else currentProfileId s)"
    by (cases "currentProfileId s") (simp_all add: addProfile_parts addProfile_set_def nullish_or_def)
  have payload: "PersistedProfiles (profiles s @ [?p])
            (currentProfileId (fst (snd (addProfile env userId data (s, w)))))
            (toISOString (clock env (clock_reads w + 3))) = ?payload"
    unfolding cur by (simp add: PersistedProfiles_def)
  from a have "saveToStorage env userId ?payload ?w4
      = ?w4\<lparr>storage_items := AList.update (storageKey userId) str (storage_items ?w4)\<rparr>"
    by (intro saveToStorage_stores) (simp_all add: storageKey_def)
  then have "snd (snd (addProfile env userId data (s, w)))
      = ?w4\<lparr>storage_items := AList.update (storageKey userId) str (storage_items ?w4)\<rparr>"
    by (simp only: addProfile_world payload)
  then show "storage_items (snd (snd (addProfile env userId data (s, w))))
             = AList.update (''profiles:'' @ userId) str (storage_items w)"
    by (simp add: storageKey_def)
qed

lemma example_clock: "clock example_env n = 1000 * n" "random36 example_env n = ''k3x9q2''"
  by (simp_all add: example_env_def json_platform_def)

lemma scenario_add_returns:
  "fst (addProfile example_env u scenario_data (s, example_world [])) = scenario_profile"
  by (simp add: addProfile_returns newProfile_def spread_def scenario_data_def scenario_profile_def
        uid_eq example_clock example_world_def iso_examples toString36_0)

lemma rebound_text:
  "json_text (JObj [(''profiles'', JArr [example_profile ''p1'' ''acct-1'', scenario_profile]),
                    (''currentProfileId'', JStr ''p1''),
                    (''updatedAt'', JStr ''1970-01-01T00:00:03.000Z'')])
   = ''{\"profiles\":[{\"id\":\"p1\",\"accountId\":\"acct-1\",\"roleType\":\"Pharmacist-PIC\",\"firstName\":\"Grace\",\"lastName\":\"Hopper\",\"createdAt\":\"2024-01-01T00:00:00.000Z\",\"updatedAt\":\"2024-01-01T00:00:00.000Z\"},{\"id\":\"0-k3x9q2\",\"roleType\":\"Pharmacy Technician\",\"firstName\":\"Ada\",\"lastName\":\"Lovelace\",\"createdAt\":\"1970-01-01T00:00:01.000Z\",\"updatedAt\":\"1970-01-01T00:00:02.000Z\"}],\"currentProfileId\":\"p1\",\"updatedAt\":\"1970-01-01T00:00:03.000Z\"}''"
  by code_simp


lemma rebound_text_length:
  "length (json_text (JObj [(''profiles'', JArr [example_profile ''p1'' ''acct-1'', scenario_profile]),
                 (''currentProfileId'', JStr ''p1''),
                 (''updatedAt'', JStr ''1970-01-01T00:00:03.000Z'')])) \<le> 500"
  by code_simp

theorem addProfile_rebinds_account_witness:
  "loadedForUserId example_loaded = Some ''acct-1''
   \<and> storage_available (example_world [])
   \<and> JSON_stringify example_env
         (JObj [(''profiles'', JArr [example_profile ''p1'' ''acct-1'', scenario_profile]),
                 (''currentProfileId'', JStr ''p1''),
                 (''updatedAt'', JStr ''1970-01-01T00:00:03.000Z'')])
       = map_of (storage_items (snd (snd (addProfile example_env ''acct-2'' scenario_data (example_loaded, example_world []))))) ''profiles:acct-2''
   \<and> storage_size (storage_items (snd (snd (addProfile example_env ''acct-2'' scenario_data (example_loaded, example_world []))))) \<le> storage_capacity (example_world [])
   \<and> loadedForUserId (fst (snd (addProfile example_env ''acct-2'' scenario_data (example_loaded, example_world [])))) = Some ''acct-2''
   \<and> profiles (fst (snd (addProfile example_env ''acct-2'' scenario_data (example_loaded, example_world [])))) = [example_profile ''p1'' ''acct-1'', scenario_profile]
   \<and> storage_items (snd (snd (addProfile example_env ''acct-2'' scenario_data (example_loaded, example_world []))))
       = [(''profiles:acct-2'',
           ''{\"profiles\":[{\"id\":\"p1\",\"accountId\":\"acct-1\",\"roleType\":\"Pharmacist-PIC\",\"firstName\":\"Grace\",\"lastName\":\"Hopper\",\"createdAt\":\"2024-01-01T00:00:00.000Z\",\"updatedAt\":\"2024-01-01T00:00:00.000Z\"},{\"id\":\"0-k3x9q2\",\"roleType\":\"Pharmacy Technician\",\"firstName\":\"Ada\",\"lastName\":\"Lovelace\",\"createdAt\":\"1970-01-01T00:00:01.000Z\",\"updatedAt\":\"1970-01-01T00:00:02.000Z\"}],\"currentProfileId\":\"p1\",\"updatedAt\":\"1970-01-01T00:00:03.000Z\"}'')]"
proof -
  let ?str = "''{\"profiles\":[{\"id\":\"p1\",\"accountId\":\"acct-1\",\"roleType\":\"Pharmacist-PIC\",\"firstName\":\"Grace\",\"lastName\":\"Hopper\",\"createdAt\":\"2024-01-01T00:00:00.000Z\",\"updatedAt\":\"2024-01-01T00:00:00.000Z\"},{\"id\":\"0-k3x9q2\",\"roleType\":\"Pharmacy Technician\",\"firstName\":\"Ada\",\"lastName\":\"Lovelace\",\"createdAt\":\"1970-01-01T00:00:01.000Z\",\"updatedAt\":\"1970-01-01T00:00:02.000Z\"}],\"currentProfileId\":\"p1\",\"updatedAt\":\"1970-01-01T00:00:03.000Z\"}''"
  have payload: "JObj [(''profiles'', JArr (profiles example_loaded @ [scenario_profile])),
                (''currentProfileId'',
                   if currentProfileId example_loaded = JNull \<or> currentProfileId example_loaded = JUndefined
                   then getPropOpt scenario_profile ''id''
                   else currentProfileId example_loaded),
                (''updatedAt'', JStr (toISOString (clock example_env (clock_reads (example_world []) + 3))))]
      = JObj [(''profiles'', JArr [example_profile ''p1'' ''acct-1'', scenario_profile]),
                 (''currentProfileId'', JStr ''p1''),
                 (''updatedAt'', JStr ''1970-01-01T00:00:03.000Z'')]"
    by (simp add: example_loaded_def example_clock example_world_def iso_examples)
  have was: "loadedForUserId example_loaded = Some ''acct-1''"
    by (simp add: example_loaded_def)
  have str: "JSON_stringify example_env (JObj [(''profiles'', JArr [example_profile ''p1'' ''acct-1'', scenario_profile]),
                 (''currentProfileId'', JStr ''p1''),
                 (''updatedAt'', JStr ''1970-01-01T00:00:03.000Z'')]) = Some ?str"
    by (simp add: example_env_def json_platform_def json_stringify_def rebound_text)
  have av: "storage_available (example_world [])"
    by (simp add: example_world_def)
  have items: "storage_items (example_world []) = []"
    by (simp add: example_world_def)
  have "length ?str \<le> 500"
    using rebound_text_length unfolding rebound_text .
  then have fits: "storage_size (AList.update (''profiles:'' @ ''acct-2'') ?str (storage_items (example_world [])))
       \<le> storage_capacity (example_world [])"
    by (simp add: storage_size_def example_world_def)
  note inst = addProfile_rebinds_account [of example_env "''acct-2''" scenario_data example_loaded "example_world []"
         ?str, unfolded scenario_add_returns, unfolded payload]
  from inst have now: "loadedForUserId (fst (snd (addProfile example_env ''acct-2'' scenario_data (example_loaded, example_world [])))) = Some ''acct-2''"
    by (rule conjunct1)
  from inst have "profiles (fst (snd (addProfile example_env ''acct-2'' scenario_data (example_loaded, example_world [])))) = profiles example_loaded @ [scenario_profile]"
    by blast
  then have all: "profiles (fst (snd (addProfile example_env ''acct-2'' scenario_data (example_loaded, example_world [])))) = [example_profile ''p1'' ''acct-1'', scenario_profile]"
    by (simp add: example_loaded_def)
  from inst str av fits
  have "storage_items (snd (snd (addProfile example_env ''acct-2'' scenario_data (example_loaded, example_world [])))) = AList.update (''profiles:'' @ ''acct-2'') ?str (storage_items (example_world []))"
    by blast
  then have stored: "storage_items (snd (snd (addProfile example_env ''acct-2'' scenario_data (example_loaded, example_world [])))) = [(''profiles:acct-2'', ?str)]"
    unfolding items by simp
  have same: "JSON_stringify example_env (JObj [(''profiles'', JArr [example_profile ''p1'' ''acct-1'', scenario_profile]),
                 (''currentProfileId'', JStr ''p1''),
                 (''updatedAt'', JStr ''1970-01-01T00:00:03.000Z'')]) = map_of (storage_items (snd (snd (addProfile example_env ''acct-2'' scenario_data (example_loaded, example_world []))))) ''profiles:acct-2''"
    unfolding stored str by simp
  have size: "storage_size (storage_items (snd (snd (addProfile example_env ''acct-2'' scenario_data (example_loaded, example_world []))))) \<le> storage_capacity (example_world [])"
    using fits unfolding stored items by simp
  from was av same size now all stored show ?thesis by blast
qed

subsection \<open>The add and update scenario\<close>

lemma uid_nonempty: "fst (uid env w) \<noteq> []"
  by (simp add: uid_eq)

lemma addProfile_world_counters:
  "clock_reads (snd (snd (addProfile env u data (s, w)))) = clock_reads w + 4"
  by (simp add: addProfile_world saveToStorage_def saveToStorage_try_def setItem_def Let_def
           split: option.splits)

lemma scenario_trace:
  "let i = toString36 (clock env (clock_reads w)) @ ''-'' @ random36 env (random_reads w);
       created = toISOString (clock env (clock_reads w + 1));
       updated = toISOString (clock env (clock_reads w + 2));
       r = addProfile env ''acct-1'' scenario_data (s\<lparr>profiles := []\<rparr>, w)
   in i \<noteq> []
      \<and> fst r = JObj [(''id'', JStr i), (''roleType'', JStr ''Pharmacy Technician''),
                      (''firstName'', JStr ''Ada''), (''lastName'', JStr ''Lovelace''),
                      (''createdAt'', JStr created), (''updatedAt'', JStr updated)]
      \<and> fst (updateProfile env ''acct-1'' i license_change (snd r)) = Inr ()
      \<and> profiles (fst (snd (updateProfile env ''acct-1'' i license_change (snd r))))
          = [JObj [(''id'', JStr i), (''roleType'', JStr ''Pharmacy Technician''),
                   (''firstName'', JStr ''Ada''), (''lastName'', JStr ''Lovelace''),
                   (''createdAt'', JStr created),
                   (''updatedAt'', JStr (toISOString (clock env (clock_reads w + 4)))),
                   (''licenseNumber'', JStr ''TX-12345'')]]"
proof -
  let ?i = "toString36 (clock env (clock_reads w)) @ ''-'' @ random36 env (random_reads w)"
  let ?r = "addProfile env ''acct-1'' scenario_data (s\<lparr>profiles := []\<rparr>, w)"
  let ?p = "JObj [(''id'', JStr ?i), (''roleType'', JStr ''Pharmacy Technician''),
                      (''firstName'', JStr ''Ada''), (''lastName'', JStr ''Lovelace''),
                      (''createdAt'', JStr (toISOString (clock env (clock_reads w + 1)))),
                      (''updatedAt'', JStr (toISOString (clock env (clock_reads w + 2))))]"
  have i: "?i \<noteq> []" by simp
  have p: "fst ?r = ?p"
    by (simp add: addProfile_returns newProfile_def spread_def scenario_data_def uid_eq)
  obtain s1 w1 where sw: "snd ?r = (s1, w1)" by (cases "snd ?r")
  have ps: "profiles s1 = [?p]"
    using addProfile_parts [of env "''acct-1''" scenario_data "s\<lparr>profiles := []\<rparr>" w] sw p
    by (simp add: addProfile_set_def)
  have cr: "clock_reads w1 = clock_reads w + 4"
    using addProfile_world_counters [of env "''acct-1''" scenario_data "s\<lparr>profiles := []\<rparr>" w] sw by simp
  have m: "updateProfile_map env ?i license_change [?p] w1 =
     (Inr [JObj [(''id'', JStr ?i), (''roleType'', JStr ''Pharmacy Technician''),
                   (''firstName'', JStr ''Ada''), (''lastName'', JStr ''Lovelace''),
                   (''createdAt'', JStr (toISOString (clock env (clock_reads w + 1)))),
                   (''updatedAt'', JStr (toISOString (clock env (clock_reads w + 4)))),
                   (''licenseNumber'', JStr ''TX-12345'')]], w1\<lparr>clock_reads := Suc (clock_reads w1)\<rparr>)"
    by (simp add: new_Date_eq spread_def license_change_def cr)
  have u1: "fst (updateProfile env ''acct-1'' ?i license_change (s1, w1)) = Inr ()"
    unfolding updateProfile_def prod.case ps m by (simp add: new_Date_eq)
  have u2: "profiles (fst (snd (updateProfile env ''acct-1'' ?i license_change (s1, w1)))) =
      [JObj [(''id'', JStr ?i), (''roleType'', JStr ''Pharmacy Technician''),
                   (''firstName'', JStr ''Ada''), (''lastName'', JStr ''Lovelace''),
                   (''createdAt'', JStr (toISOString (clock env (clock_reads w + 1)))),
                   (''updatedAt'', JStr (toISOString (clock env (clock_reads w + 4)))),
                   (''licenseNumber'', JStr ''TX-12345'')]]"
    unfolding updateProfile_def prod.case ps m by (simp add: new_Date_eq)
  from i p u1 u2 show ?thesis
    unfolding Let_def sw by blast
qed

lemma toString36_5000: "toString36 5000 = ''3uw''"
  by (simp add: toString36.simps digit36_def)

lemma frozen_clock: "clock frozen_env n = 5000" "random36 frozen_env n = ''k3x9q2''"
  by (simp_all add: frozen_env_def json_platform_def)

lemma frozen_trace:
  "fst (addProfile frozen_env ''acct-1'' scenario_data (initial_ProfilesState, example_world []))
     = JObj [(''id'', JStr ''3uw-k3x9q2''), (''roleType'', JStr ''Pharmacy Technician''),
             (''firstName'', JStr ''Ada''), (''lastName'', JStr ''Lovelace''),
             (''createdAt'', JStr ''1970-01-01T00:00:05.000Z''), (''updatedAt'', JStr ''1970-01-01T00:00:05.000Z'')]
   \<and> profiles (fst (snd (updateProfile frozen_env ''acct-1'' ''3uw-k3x9q2'' license_change
         (snd (addProfile frozen_env ''acct-1'' scenario_data (initial_ProfilesState, example_world []))))))
     = [JObj [(''id'', JStr ''3uw-k3x9q2''), (''roleType'', JStr ''Pharmacy Technician''),
              (''firstName'', JStr ''Ada''), (''lastName'', JStr ''Lovelace''),
              (''createdAt'', JStr ''1970-01-01T00:00:05.000Z''), (''updatedAt'', JStr ''1970-01-01T00:00:05.000Z''),
              (''licenseNumber'', JStr ''TX-12345'')]]"
proof -
  have "initial_ProfilesState\<lparr>profiles := []\<rparr> = initial_ProfilesState"
    by (simp add: initial_ProfilesState_def)
  with scenario_trace [of frozen_env "example_world []" initial_ProfilesState]
  show ?thesis
    by (simp add: Let_def frozen_clock toString36_5000 iso_examples)
qed

text \<open>
  Claim C7 (concrete add/update scenario) fails in three places. The data of the
  scenario carries no \<open>accountId\<close>, and \<open>addProfile\<close> copies its data without using its
  account argument for the profile, so the profile it returns has no \<open>accountId\<close>.
  \<open>createdAt\<close> and \<open>updatedAt\<close> come from two separate clock readings and differ when the
  clock advances between them. And when the clock has not advanced by the time of the
  update, \<open>updatedAt\<close> is what it was, not strictly greater.
\<close>

theorem scenario_counterexample:
  "getPropOpt (fst (addProfile example_env ''acct-1'' scenario_data (initial_ProfilesState, example_world [])))
      ''accountId'' = JUndefined
   \<and> getPropOpt (fst (addProfile example_env ''acct-1'' scenario_data (initial_ProfilesState, example_world [])))
      ''accountId'' \<noteq> JStr ''acct-1''
   \<and> getPropOpt (fst (addProfile example_env ''acct-1'' scenario_data (initial_ProfilesState, example_world [])))
      ''createdAt'' = JStr ''1970-01-01T00:00:01.000Z''
   \<and> getPropOpt (fst (addProfile example_env ''acct-1'' scenario_data (initial_ProfilesState, example_world [])))
      ''updatedAt'' = JStr ''1970-01-01T00:00:02.000Z''
   \<and> getPropOpt (fst (addProfile example_env ''acct-1'' scenario_data (initial_ProfilesState, example_world [])))
      ''createdAt''
     \<noteq> getPropOpt (fst (addProfile example_env ''acct-1'' scenario_data (initial_ProfilesState, example_world [])))
      ''updatedAt''
   \<and> getPropOpt (fst (addProfile frozen_env ''acct-1'' scenario_data (initial_ProfilesState, example_world [])))
      ''id'' = JStr ''3uw-k3x9q2''
   \<and> getPropOpt (fst (addProfile frozen_env ''acct-1'' scenario_data (initial_ProfilesState, example_world [])))
      ''updatedAt'' = JStr ''1970-01-01T00:00:05.000Z''
   \<and> getPropOpt (hd (profiles (fst (snd (updateProfile frozen_env ''acct-1'' ''3uw-k3x9q2'' license_change
         (snd (addProfile frozen_env ''acct-1'' scenario_data (initial_ProfilesState, example_world []))))))))
      ''updatedAt'' = JStr ''1970-01-01T00:00:05.000Z''"
  using frozen_trace
  by (simp add: scenario_add_returns scenario_profile_def getPropOpt_def)

text \<open>
  Claim C7, amended. On an empty collection, \<open>addProfile("acct-1", {roleType, firstName,
  lastName})\<close> returns a profile with a non-empty generated id, exactly the three
  supplied fields (so no \<open>accountId\<close> and no optional field), and \<open>createdAt\<close> and
  \<open>updatedAt\<close> rendered from the two clock readings that follow the one used for the id.
  The following \<open>updateProfile("acct-1", id, {licenseNumber})\<close> leaves every other field
  as it was, sets \<open>licenseNumber\<close>, and sets \<open>updatedAt\<close> to the rendering of the clock
  reading taken during the update.
\<close>

theorem scenario_add_then_update:
  "let i = toString36 (clock env (clock_reads w)) @ ''-'' @ random36 env (random_reads w);
       created = toISOString (clock env (clock_reads w + 1));
       updated = toISOString (clock env (clock_reads w + 2));
       r = addProfile env ''acct-1'' scenario_data (s\<lparr>profiles := []\<rparr>, w)
   in i \<noteq> []
      \<and> fst r = JObj [(''id'', JStr i), (''roleType'', JStr ''Pharmacy Technician''),
                      (''firstName'', JStr ''Ada''), (''lastName'', JStr ''Lovelace''),
                      (''createdAt'', JStr created), (''updatedAt'', JStr updated)]
      \<and> fst (updateProfile env ''acct-1'' i license_change (snd r)) = Inr ()
      \<and> profiles (fst (snd (updateProfile env ''acct-1'' i license_change (snd r))))
          = [JObj [(''id'', JStr i), (''roleType'', JStr ''Pharmacy Technician''),
                   (''firstName'', JStr ''Ada''), (''lastName'', JStr ''Lovelace''),
                   (''createdAt'', JStr created),
                   (''updatedAt'', JStr (toISOString (clock env (clock_reads w + 4)))),
                   (''licenseNumber'', JStr ''TX-12345'')]]"
  by (rule scenario_trace)

subsection \<open>The owning account of a profile\<close>

lemma matched_is_object: "getProp p ''id'' = Inr (JStr i) \<Longrightarrow> \<exists>kvs. p = JObj kvs"
  by (cases p) simp_all

lemma updated_accountId:
  assumes "map_of changes ''accountId'' = None"
  shows "getPropOpt (JObj (AList.update ''updatedAt'' z (spread (spread [] kvs) changes))) ''accountId''
         = getPropOpt (JObj kvs) ''accountId''"
  using assms by (simp add: getPropOpt_JObj update_conv' map_of_spread map_add_def)

lemma updateProfile_map_accountIds:
  assumes "map_of changes ''accountId'' = None"
  shows "updateProfile_map env i changes ps w = (Inr next, w') \<Longrightarrow> accountIds next = accountIds ps"
proof (induction ps arbitrary: w w' "next")
  case Nil
  then show ?case by (simp add: accountIds_def)
next
  case (Cons p ps)
  show ?case
  proof (cases "getProp p ''id''")
    case (Inl e)
    with Cons.prems show ?thesis by simp
  next
    case (Inr v)
    show ?thesis
    proof (cases "v = JStr i")
      case True
      with Inr obtain kvs where p: "p = JObj kvs" using matched_is_object by blast
      let ?w1 = "w\<lparr>clock_reads := Suc (clock_reads w)\<rparr>"
      from Cons.prems Inr True obtain rest where
        rest: "updateProfile_map env i changes ps ?w1 = (Inr rest, w')"
        and nxt: "next = JObj (AList.update ''updatedAt'' (JStr (toISOString (clock env (clock_reads w))))
                          (spread (spread [] (objProps p)) changes)) # rest"
        by (auto simp: new_Date_eq split: prod.splits sum.splits)
      from Cons.IH [OF rest] nxt p updated_accountId [OF assms] show ?thesis
        by (simp add: accountIds_def)
    next
      case False
      from Cons.prems Inr False obtain rest where
        rest: "updateProfile_map env i changes ps w = (Inr rest, w')" and nxt: "next = p # rest"
        by (auto split: prod.splits sum.splits)
      from Cons.IH [OF rest] nxt show ?thesis by (simp add: accountIds_def)
    qed
  qed
qed

lemma updateProfile_accountIds:
  assumes "map_of changes ''accountId'' = None"
  shows "accountIds (profiles (fst (snd (updateProfile env u i changes (s, w))))) = accountIds (profiles s)"
proof (cases "updateProfile_map env i changes (profiles s) w")
  case (Pair r w1)
  show ?thesis
  proof (cases r)
    case (Inl e)
    with Pair show ?thesis by (simp add: updateProfile_def)
  next
    case (Inr nxt)
    with Pair updateProfile_map_accountIds [OF assms, of env i "profiles s" w nxt w1]
    show ?thesis by (simp add: updateProfile_def new_Date_eq)
  qed
qed

text \<open>
  When the changes carry an \<open>accountId\<close> and \<open>updateProfile\<close> returns, every profile
  whose \<open>id\<close> matches has received it, and every other profile has kept its own.
\<close>

lemma reassigned_accountId:
  assumes "map_of changes ''accountId'' = Some a"
  shows "getPropOpt (JObj (AList.update ''updatedAt'' z (spread (spread [] kvs) changes))) ''accountId'' = a"
  using assms by (simp add: getPropOpt_JObj update_conv' map_of_spread map_add_def)

lemma updateProfile_map_reassigns:
  assumes "map_of changes ''accountId'' = Some a"
  shows "updateProfile_map env i changes ps w = (Inr next, w') \<Longrightarrow> accountIds next = reowned i a ps"
proof (induction ps arbitrary: w w' "next")
  case Nil
  then show ?case by (simp add: accountIds_def reowned_def)
next
  case (Cons p ps)
  show ?case
  proof (cases "getProp p ''id''")
    case (Inl e)
    with Cons.prems show ?thesis by simp
  next
    case (Inr v)
    then have v: "getPropOpt p ''id'' = v" by (simp add: getPropOpt_def)
    show ?thesis
    proof (cases "v = JStr i")
      case True
      with Inr obtain kvs where p: "p = JObj kvs" using matched_is_object by blast
      let ?w1 = "w\<lparr>clock_reads := Suc (clock_reads w)\<rparr>"
      from Cons.prems Inr True obtain rest where
        rest: "updateProfile_map env i changes ps ?w1 = (Inr rest, w')"
        and nxt: "next = JObj (AList.update ''updatedAt'' (JStr (toISOString (clock env (clock_reads w))))
                          (spread (spread [] (objProps p)) changes)) # rest"
        by (auto simp: new_Date_eq split: prod.splits sum.splits)
      from Cons.IH [OF rest] nxt v True reassigned_accountId [OF assms] show ?thesis
        by (simp add: accountIds_def reowned_def)
    next
      case False
      from Cons.prems Inr False obtain rest where
        rest: "updateProfile_map env i changes ps w = (Inr rest, w')" and nxt: "next = p # rest"
        by (auto split: prod.splits sum.splits)
      from Cons.IH [OF rest] nxt v False show ?thesis by (simp add: accountIds_def reowned_def)
    qed
  qed
qed

lemma updateProfile_reassigns:
  assumes "map_of changes ''accountId'' = Some a"
    and "fst (updateProfile env u i changes (s, w)) = Inr ()"
  shows "accountIds (profiles (fst (snd (updateProfile env u i changes (s, w))))) = reowned i a (profiles s)"
proof (cases "updateProfile_map env i changes (profiles s) w")
  case (Pair r w1)
  show ?thesis
  proof (cases r)
    case (Inl e)
    with Pair assms(2) show ?thesis by (simp add: updateProfile_def)
  next
    case (Inr nxt)
    with Pair updateProfile_map_reassigns [OF assms(1), of env i "profiles s" w nxt w1]
    show ?thesis by (simp add: updateProfile_def new_Date_eq)
  qed
qed

lemma removeProfile_profiles:
  "profiles (fst (snd (removeProfile env u i (s, w)))) = profiles s
   \<or> profiles (fst (snd (removeProfile env u i (s, w))))
       = filter (\<lambda>p. getPropOpt p ''id'' \<noteq> JStr i) (profiles s)"
proof (cases "removeProfile_filter i (profiles s)")
  case (Inl e)
  then show ?thesis by (simp add: removeProfile_def)
next
  case (Inr nxt)
  have "removeProfile_filter i ps = Inr r \<Longrightarrow> r = filter (\<lambda>p. getPropOpt p ''id'' \<noteq> JStr i) ps" for ps r
  proof (induction ps arbitrary: r)
    case Nil
    then show ?case by simp
  next
    case (Cons p ps)
    then show ?case
      by (cases "getProp p ''id''"; cases "removeProfile_filter i ps")
         (auto simp: getPropOpt_def)
  qed
  with Inr show ?thesis by (simp add: removeProfile_def new_Date_eq)
qed

text \<open>
  Claim C8 (no reassignment) fails for \<open>updateProfile\<close>: its \<open>changes\<close> are a
  \<open>Partial<PharmacyProfile>\<close>, which admits \<open>accountId\<close>, and the merge copies every
  property of \<open>changes\<close> onto the matching profile.
\<close>

theorem updateProfile_reassigns_counterexample:
  "profiles example_loaded = [example_profile ''p1'' ''acct-1'']
   \<and> getPropOpt (example_profile ''p1'' ''acct-1'') ''accountId'' = JStr ''acct-1''
   \<and> fst (updateProfile example_env ''acct-1'' ''p1'' reassignment (example_loaded, example_world [])) = Inr ()
   \<and> length (profiles (fst (snd (updateProfile example_env ''acct-1'' ''p1'' reassignment
         (example_loaded, example_world []))))) = 1
   \<and> getPropOpt (hd (profiles (fst (snd (updateProfile example_env ''acct-1'' ''p1'' reassignment
         (example_loaded, example_world [])))))) ''id'' = JStr ''p1''
   \<and> getPropOpt (hd (profiles (fst (snd (updateProfile example_env ''acct-1'' ''p1'' reassignment
         (example_loaded, example_world [])))))) ''accountId'' = JStr ''acct-2''
   \<and> getPropOpt (hd (profiles (fst (snd (updateProfile example_env ''acct-1'' ''p1'' reassignment
         (example_loaded, example_world [])))))) ''accountId''
       \<noteq> getPropOpt (example_profile ''p1'' ''acct-1'') ''accountId''"
  by (simp add: updateProfile_def example_loaded_def example_profile_def reassignment_def new_Date_eq
        spread_def getPropOpt_def)

text \<open>
  Claim C8, amended. \<open>ensureLoaded\<close> for the loaded account and \<open>setCurrentProfile\<close>
  leave the collection as it is; \<open>addProfile\<close> appends to it; \<open>removeProfile\<close> leaves
  it as it is or drops the matching profiles; \<open>reset\<close> empties it; and \<open>updateProfile\<close>
  keeps the owning-account identifier of every profile, position by position, unless
  the supplied changes carry an \<open>accountId\<close>.
\<close>

theorem owner_changes_only_through_update:
  "(loadedForUserId s = Some A \<longrightarrow> profiles (fst (ensureLoaded env A (s, w))) = profiles s)
   \<and> profiles (fst (setCurrentProfile env profileId (s, w))) = profiles s
   \<and> profiles (fst (snd (addProfile env userId data (s, w)))) = profiles s @ [fst (addProfile env userId data (s, w))]
   \<and> (map_of changes ''accountId'' = None \<longrightarrow>
        accountIds (profiles (fst (snd (updateProfile env userId i changes (s, w))))) = accountIds (profiles s))
   \<and> (profiles (fst (snd (removeProfile env userId i (s, w)))) = profiles s
        \<or> profiles (fst (snd (removeProfile env userId i (s, w))))
            = filter (\<lambda>p. getPropOpt p ''id'' \<noteq> JStr i) (profiles s))
   \<and> profiles (reset s) = []"
proof (intro conjI impI)
  show "loadedForUserId s = Some A \<Longrightarrow> profiles (fst (ensureLoaded env A (s, w))) = profiles s"
    by (simp add: ensureLoaded_def)
  show "profiles (fst (setCurrentProfile env profileId (s, w))) = profiles s"
    by (simp add: setCurrentProfile_def new_Date_eq)
  show "profiles (fst (snd (addProfile env userId data (s, w)))) = profiles s @ [fst (addProfile env userId data (s, w))]"
    by (simp add: addProfile_parts addProfile_set_def)
  show "map_of changes ''accountId'' = None \<Longrightarrow>
        accountIds (profiles (fst (snd (updateProfile env userId i changes (s, w))))) = accountIds (profiles s)"
    by (rule updateProfile_accountIds)
  show "profiles (fst (snd (removeProfile env userId i (s, w)))) = profiles s
        \<or> profiles (fst (snd (removeProfile env userId i (s, w))))
            = filter (\<lambda>p. getPropOpt p ''id'' \<noteq> JStr i) (profiles s)"
    by (rule removeProfile_profiles)
  show "profiles (reset s) = []"
    by (simp add: reset_def)
qed

theorem owner_changes_only_through_update_witness:
  "loadedForUserId example_loaded = Some ''acct-1''
   \<and> profiles (fst (ensureLoaded example_env ''acct-1'' (example_loaded, example_world []))) = profiles example_loaded
   \<and> map_of license_change ''accountId'' = None
   \<and> accountIds (profiles (fst (snd (updateProfile example_env ''acct-1'' ''p1'' license_change
         (example_loaded, example_world []))))) = [JStr ''acct-1'']"
  using owner_changes_only_through_update [of example_loaded "''acct-1''" example_env "example_world []"
          None "''acct-1''" "[]" license_change "''p1''"]
  by (simp add: example_loaded_def license_change_def accountIds_def example_profile_def getPropOpt_def)

end
